theory Spec2Isabelle
  imports
    Main
    "HOL-Library.Char_ord"
    "HOL-Library.List_Lexorder"
    "HOL-Library.Product_Lexorder"
    "HOL-Library.Multiset"
begin

section \<open>Python values used by the two scripts\<close>

text \<open>
  The exceptions that the modelled statements can raise. A raise is a value; the
  handlers of the source (\<^verbatim>\<open>except Exception\<close>) are case distinctions on it.
\<close>

datatype error = IndexError | ValueError | TypeError | OverflowError | EOFError | KeyError

text \<open>\<^verbatim>\<open>str(n)\<close> on an integer: decimal digits, a minus sign when negative.\<close>

fun str_nat :: "nat \<Rightarrow> string" where
  "str_nat n =
     (if n < 10 then [''0123456789'' ! n]
      else str_nat (n div 10) @ [''0123456789'' ! (n mod 10)])"

declare str_nat.simps [simp del]

definition str_int :: "int \<Rightarrow> string" where
  "str_int i = (if i < 0 then CHR ''-'' # str_nat (nat (- i)) else str_nat (nat i))"

text \<open>
  \<^verbatim>\<open>s.strip()\<close> and \<^verbatim>\<open>s.lower()\<close> on ASCII text. The white space of
  \<^verbatim>\<open>str.strip\<close> below code point 128 is 9 to 13, 28 to 31 and 32. A string here is
  a list of bytes: white space and letters beyond ASCII, which Python also strips and
  lowers, are left as they are.
\<close>

definition is_space :: "char \<Rightarrow> bool" where
  "is_space c = (let n = (of_char c :: nat) in (9 \<le> n \<and> n \<le> 13) \<or> (28 \<le> n \<and> n \<le> 32))"

definition strip :: "string \<Rightarrow> string" where
  "strip s = rev (dropWhile is_space (rev (dropWhile is_space s)))"

definition lower :: "string \<Rightarrow> string" where
  "lower s =
     map (\<lambda>c. if CHR ''A'' \<le> c \<and> c \<le> CHR ''Z'' then char_of ((of_char c :: nat) + 32) else c) s"

text \<open>
  \<^verbatim>\<open>int(s)\<close> on a string, base ten: surrounding white space is dropped, one sign is
  allowed, then digits, where single underscores may stand between two digits.
  Everything else is a \<^verbatim>\<open>ValueError\<close> (here \<open>None\<close>). The digits are the ASCII
  digits; decimal digits of other scripts, which \<^verbatim>\<open>int\<close> reads too, are not.
\<close>

definition is_digit :: "char \<Rightarrow> bool" where
  "is_digit c = (CHR ''0'' \<le> c \<and> c \<le> CHR ''9'')"

fun parse_digits :: "string \<Rightarrow> nat \<Rightarrow> nat option" where
  "parse_digits [] acc = Some acc"
| "parse_digits (c # cs) acc =
     (if is_digit c then parse_digits cs (10 * acc + ((of_char c :: nat) - 48))
      else if c = CHR ''_'' then
        (case cs of
           [] \<Rightarrow> None
         | d # _ \<Rightarrow> if is_digit d then parse_digits cs acc else None)
      else None)"

definition py_int :: "string \<Rightarrow> int option" where
  "py_int s =
     (case strip s of
        [] \<Rightarrow> None
      | c # cs \<Rightarrow>
          (let neg = (c = CHR ''-'');
               body = (if c = CHR ''-'' \<or> c = CHR ''+'' then cs else c # cs)
           in case body of
                [] \<Rightarrow> None
              | d # _ \<Rightarrow>
                  if is_digit d
                  then map_option (\<lambda>n. if neg then - int n else int n) (parse_digits body 0)
                  else None))"

text \<open>
  \<^verbatim>\<open>xs[i]\<close> on a list: a negative index counts from the end, and an index outside
  \<open>-len(xs) .. len(xs) - 1\<close> raises \<^verbatim>\<open>IndexError\<close>.
\<close>

definition py_index :: "'a list \<Rightarrow> int \<Rightarrow> error + 'a" where
  "py_index xs i =
     (if 0 \<le> i \<and> i < int (length xs) then Inr (xs ! nat i)
      else if i < 0 \<and> - int (length xs) \<le> i then Inr (xs ! nat (int (length xs) + i))
      else Inl IndexError)"

text \<open>
  The expression \<^verbatim>\<open>xs[int(sel) - 1]\<close> of lines 171 and 285: the conversion may raise
  \<^verbatim>\<open>ValueError\<close>, the subscript \<^verbatim>\<open>IndexError\<close>.
\<close>

definition index_by_text :: "'a list \<Rightarrow> string \<Rightarrow> error + 'a" where
  "index_by_text xs sel =
     (case py_int sel of
        None \<Rightarrow> Inl ValueError
      | Some i \<Rightarrow> py_index xs (i - 1))"

text \<open>\<^verbatim>\<open>sep.join(xs)\<close>.\<close>

fun join :: "string \<Rightarrow> string list \<Rightarrow> string" where
  "join sep [] = []"
| "join sep [x] = x"
| "join sep (x # y # ys) = x @ sep @ join sep (y # ys)"

text \<open>
  A \<^verbatim>\<open>dict\<close> keeps its keys in the order of their first insertion, and that order is
  read by \<^verbatim>\<open>.keys()\<close>, \<^verbatim>\<open>.values()\<close> and \<^verbatim>\<open>.items()\<close>: an association list,
  updated in place when the key is there and extended at the end otherwise.
\<close>

type_synonym ('k, 'v) dict = "('k \<times> 'v) list"

fun dict_set :: "('k, 'v) dict \<Rightarrow> 'k \<Rightarrow> 'v \<Rightarrow> ('k, 'v) dict" where
  "dict_set [] k v = [(k, v)]"
| "dict_set ((k', v') # d) k v =
     (if k' = k then (k', v) # d else (k', v') # dict_set d k v)"

definition dict_get :: "('k, 'v) dict \<Rightarrow> 'k \<Rightarrow> 'v \<Rightarrow> 'v" where
  "dict_get d k dflt = (case map_of d k of None \<Rightarrow> dflt | Some v \<Rightarrow> v)"

definition dict_mem :: "('k, 'v) dict \<Rightarrow> 'k \<Rightarrow> bool" where
  "dict_mem d k = (map_of d k \<noteq> None)"

definition dict_keys :: "('k, 'v) dict \<Rightarrow> 'k list" where
  "dict_keys d = map fst d"

definition dict_values :: "('k, 'v) dict \<Rightarrow> 'v list" where
  "dict_values d = map snd d"

subsection \<open>Date and time\<close>

text \<open>
  A \<^verbatim>\<open>datetime\<close> is a wall-clock reading, in seconds from 1970-01-01 00:00:00 on its
  own clock, and the offset of that clock from UTC when the value is aware; a naive value
  has none. Ordering two values of which exactly one is aware raises \<^verbatim>\<open>TypeError\<close>;
  two aware values are ordered by their UTC instants.
\<close>

record datetime =
  wall :: int
  utcoffset :: "int option"

definition dt_ge :: "datetime \<Rightarrow> datetime \<Rightarrow> error + bool" where
  "dt_ge a b =
     (case (utcoffset a, utcoffset b) of
        (None, None) \<Rightarrow> Inr (wall b \<le> wall a)
      | (Some x, Some y) \<Rightarrow> Inr (wall b - y \<le> wall a - x)
      | _ \<Rightarrow> Inl TypeError)"

text \<open>
  \<^verbatim>\<open>datetime.strptime(s, "%Y-%m-%d %H:%M:%S")\<close>: the library parser is a parameter
  \<open>parse\<close> that reads the wall-clock seconds or fails. The format has no zone
  directive, so the value built from it is naive.
\<close>

definition datetime_strptime :: "(string \<Rightarrow> int option) \<Rightarrow> string \<Rightarrow> error + datetime" where
  "datetime_strptime parse s =
     (case parse s of
        None \<Rightarrow> Inl ValueError
      | Some n \<Rightarrow> Inr \<lparr>wall = n, utcoffset = None\<rparr>)"

text \<open>\<^verbatim>\<open>datetime.now(timezone.utc)\<close> at clock reading \<open>now\<close> (seconds, UTC).\<close>

definition utc_now :: "int \<Rightarrow> datetime" where
  "utc_now now = \<lparr>wall = now, utcoffset = Some 0\<rparr>"

text \<open>
  Line 220, \<^verbatim>\<open>datetime.now(timezone.utc) - timedelta(days=recent_days)\<close>. A
  \<^verbatim>\<open>timedelta\<close> of more than 999999999 days, and a result outside the years 1 to
  9999, raise \<^verbatim>\<open>OverflowError\<close>.
\<close>

definition cutoff_of :: "int \<Rightarrow> int \<Rightarrow> error + datetime" where
  "cutoff_of now days =
     (if 999999999 < \<bar>days\<bar> then Inl OverflowError
      else
        (let c = now - days * 86400 in
         if c < - 62135596800 \<or> 253402300799 < c then Inl OverflowError
         else Inr ((utc_now now)\<lparr>wall := c\<rparr>)))"

section \<open>Records of the remote system\<close>

text \<open>
  The fields the scripts ask for. A field read with \<^verbatim>\<open>r["f"]\<close> is always there; a
  field read with \<^verbatim>\<open>r.get("f")\<close> and tested for truth is optional (the remote system
  sends \<^verbatim>\<open>False\<close> for an unset field). A many-to-one reference is a pair of id and
  display name.
\<close>

record task =
  t_id :: int
  t_name :: string
  t_project :: "(int \<times> string) option"
  t_user :: "(int \<times> string) option"
  t_priority :: "string option"

record open_task =
  o_user :: "(int \<times> string) option"
  o_write_date :: "string option"

record stage =
  s_id :: int
  s_name :: string

record user =
  u_id :: int
  u_name :: string
  u_login :: "string option"
  u_email :: "string option"

record candidate =
  c_id :: int
  c_name :: string
  c_login :: "string option"
  c_email :: "string option"
  c_role :: string
  c_count :: int
  c_recent :: bool

text \<open>The keys of the configuration file that the assignment tool reads (lines 146 to 149).\<close>

record config =
  open_stage_names :: "string list"
  preferred_developers :: "(string, string list) dict"
  developer_roles :: "(string, string) dict"
  recent_days :: int

text \<open>
  The remote record gateway, over a state \<open>'db\<close> of the remote system: one operation for
  each query the assignment tool sends.
  \<^item> \<open>tasks_by_code\<close>: \<^verbatim>\<open>search_read("project.task", [("code", "=", code)])\<close>, line 153;
  \<^item> \<open>stages_by_names\<close>: \<^verbatim>\<open>[("name", "in", open_stage_names)]\<close>, line 190;
  \<^item> \<open>stages_unfolded\<close>: \<^verbatim>\<open>[("fold", "=", False)]\<close>, line 199;
  \<^item> \<open>open_tasks_of\<close>: project, stage in the list, assignee set, line 212;
  \<^item> \<open>users_by_ident\<close>: login, email or name equal to the identifier, limit 1, line 77;
  \<^item> \<open>read_users\<close>: \<^verbatim>\<open>read("res.users", ids)\<close>, line 253;
  \<^item> \<open>write_user\<close>: \<^verbatim>\<open>write("project.task", [id], {"user_id": uid})\<close>, line 294, with
    its boolean result and the remote state after it.
  Faults of the transport are outside the model.
\<close>

record 'db gateway =
  tasks_by_code :: "'db \<Rightarrow> string \<Rightarrow> task list"
  stages_by_names :: "'db \<Rightarrow> string list \<Rightarrow> stage list"
  stages_unfolded :: "'db \<Rightarrow> stage list"
  open_tasks_of :: "'db \<Rightarrow> int \<Rightarrow> int list \<Rightarrow> open_task list"
  users_by_ident :: "'db \<Rightarrow> string \<Rightarrow> user list"
  read_users :: "'db \<Rightarrow> int list \<Rightarrow> user list"
  write_user :: "'db \<Rightarrow> int \<Rightarrow> int \<Rightarrow> bool \<times> 'db"

text \<open>
  What the run does to its surroundings, in order: lines printed, the dump of the raw
  records at line 159, prompts of \<^verbatim>\<open>input\<close>, and write calls sent to the gateway
  (ticket id, user id).
\<close>

datatype event = Print string | PrintTasks "task list" | Prompt string | Write int int

record 'db world =
  remote :: 'db
  console :: "string list"
  trace :: "event list"
  clock :: int

definition emit :: "event \<Rightarrow> 'db world \<Rightarrow> 'db world" where
  "emit e w = w\<lparr>trace := trace w @ [e]\<rparr>"

definition emit_all :: "event list \<Rightarrow> 'db world \<Rightarrow> 'db world" where
  "emit_all es w = w\<lparr>trace := trace w @ es\<rparr>"

text \<open>The write calls of a trace.\<close>

fun writes :: "event list \<Rightarrow> (int \<times> int) list" where
  "writes [] = []"
| "writes (Write t u # es) = (t, u) # writes es"
| "writes (e # es) = writes es"

text \<open>
  How a block of the loop body ends: it raises (the run dies with the world as it is), it
  reaches \<^verbatim>\<open>continue\<close> (this ticket is finished), or it falls through with a value.
\<close>

datatype ('a, 'w) step = Crash error 'w | Continue 'w | Next 'a 'w

text \<open>\<^verbatim>\<open>input(prompt)\<close>: the next pending line, \<^verbatim>\<open>EOFError\<close> when there is none.\<close>

definition input :: "string \<Rightarrow> 'db world \<Rightarrow> (string, 'db world) step" where
  "input prompt w =
     (let w1 = emit (Prompt prompt) w in
      case console w1 of
        [] \<Rightarrow> Crash EOFError w1
      | l # ls \<Rightarrow> Next l (w1\<lparr>console := ls\<rparr>))"

section \<open>The assignment tool: \<^verbatim>\<open>scripts/assign_from_viber.py\<close>\<close>

subsection \<open>Helper functions of the script\<close>

text \<open>Lines 76 to 81: the first user the search returns for an identifier, if any.\<close>

definition first_hit :: "'db gateway \<Rightarrow> 'db \<Rightarrow> string \<Rightarrow> user option" where
  "first_hit gw db ident = (case users_by_ident gw db ident of [] \<Rightarrow> None | u # _ \<Rightarrow> Some u)"

text \<open>\<^verbatim>\<open>resolve_users\<close>, lines 73 to 82: a dict from identifier to the first hit or \<^verbatim>\<open>None\<close>.\<close>

definition resolve_users :: "'db gateway \<Rightarrow> 'db \<Rightarrow> string list \<Rightarrow> (string, user option) dict" where
  "resolve_users gw db identifiers =
     foldl (\<lambda>resolved ident. dict_set resolved ident (first_hit gw db ident)) [] identifiers"

text \<open>\<^verbatim>\<open>pick_project_key\<close>, lines 85 to 93.\<close>

definition pick_project_key :: "(string, 'a) dict \<Rightarrow> int \<Rightarrow> string \<Rightarrow> string option" where
  "pick_project_key preferred_map project_id project_name =
     (if dict_mem preferred_map project_name then Some project_name
      else
        (let pid = str_int project_id in
         if dict_mem preferred_map pid then Some pid
         else if dict_mem preferred_map ''default'' then Some ''default''
         else None))"

text \<open>
  \<^verbatim>\<open>resolve_role\<close>, lines 96 to 105. The loop over \<^verbatim>\<open>(name, login, email)\<close> takes the
  first key that is set, not empty and in the map.
\<close>

fun first_role :: "(string, string) dict \<Rightarrow> string option list \<Rightarrow> string" where
  "first_role role_map [] = ''-''"
| "first_role role_map (key # keys) =
     (case key of
        None \<Rightarrow> first_role role_map keys
      | Some k \<Rightarrow>
          if k \<noteq> [] \<and> dict_mem role_map k then dict_get role_map k ''-''
          else first_role role_map keys)"

definition resolve_role :: "(string, string) dict \<Rightarrow> user \<Rightarrow> string" where
  "resolve_role role_map user_rec =
     (if role_map = [] then ''-''
      else first_role role_map [Some (u_name user_rec), u_login user_rec, u_email user_rec])"

subsection \<open>The blocks of the loop body of \<^verbatim>\<open>main\<close>\<close>

text \<open>Lines 165 to 168: the numbered listing of several tickets with one code.\<close>

definition ref_name :: "(int \<times> string) option \<Rightarrow> string" where
  "ref_name r = (case r of None \<Rightarrow> ''-'' | Some (_, n) \<Rightarrow> n)"

definition multi_line :: "nat \<times> task \<Rightarrow> string" where
  "multi_line it =
     (case it of (i, t) \<Rightarrow>
        str_nat i @ ''. '' @ str_int (t_id t) @ '' | '' @ t_name t
        @ '' | Project: '' @ ref_name (t_project t)
        @ '' | Assigned: '' @ ref_name (t_user t))"

definition enumerate1 :: "'a list \<Rightarrow> (nat \<times> 'a) list" where
  "enumerate1 xs = zip [1 ..< Suc (length xs)] xs"

text \<open>Lines 160 to 176: none, one, or several tickets carry the code.\<close>

definition select_task :: "task list \<Rightarrow> 'db world \<Rightarrow> (task, 'db world) step" where
  "select_task tasks w =
     (case tasks of
        [] \<Rightarrow> Continue (emit (Print ''No task found'') w)
      | [t] \<Rightarrow> Next t w
      | _ \<Rightarrow>
          (let w1 = emit_all (Print ''Multiple tasks found:''
                              # map (Print \<circ> multi_line) (enumerate1 tasks)) w
           in case input ''Select task number: '' w1 of
                Crash e w2 \<Rightarrow> Crash e w2
              | Continue w2 \<Rightarrow> Continue w2
              | Next l w2 \<Rightarrow>
                  (case index_by_text tasks (strip l) of
                     Inl _ \<Rightarrow> Continue (emit (Print ''Invalid selection, skipping'') w2)
                   | Inr t \<Rightarrow> Next t w2)))"

text \<open>
  Lines 187 to 208: the ids of the open stages, \<open>None\<close> where the source prints
  \<^verbatim>\<open>No open stages found; skipping\<close> and continues.
\<close>

definition resolve_open_stages :: "'db gateway \<Rightarrow> string list \<Rightarrow> 'db \<Rightarrow> int list option" where
  "resolve_open_stages gw names db =
     (let stage_id_list = (if names \<noteq> [] then map s_id (stages_by_names gw db names) else [])
      in if stage_id_list \<noteq> [] then Some stage_id_list
         else
           (let fallback = map s_id (stages_unfolded gw db)
            in if fallback = [] then None else Some fallback))"

text \<open>
  Lines 229 to 234, the body of the \<^verbatim>\<open>try\<close>: parse, compare with the cutoff, set the
  flag. Each of the two calls may raise.
\<close>

definition recent_try ::
  "(string \<Rightarrow> int option) \<Rightarrow> datetime \<Rightarrow> string \<Rightarrow> int \<Rightarrow> (int, bool) dict
     \<Rightarrow> error + (int, bool) dict" where
  "recent_try parse cutoff wdate uid_val recent =
     (case datetime_strptime parse wdate of
        Inl e \<Rightarrow> Inl e
      | Inr dt \<Rightarrow>
          (case dt_ge dt cutoff of
             Inl e \<Rightarrow> Inl e
           | Inr b \<Rightarrow> Inr (if b then dict_set recent uid_val True else recent)))"

text \<open>Lines 221 to 234, one round of the loop over the open tickets.\<close>

definition aggregate_step ::
  "(string \<Rightarrow> int option) \<Rightarrow> datetime \<Rightarrow> (int, int) dict \<times> (int, bool) dict \<Rightarrow> open_task
     \<Rightarrow> (int, int) dict \<times> (int, bool) dict" where
  "aggregate_step parse cutoff acc t =
     (case acc of (counts, recent) \<Rightarrow>
        (case o_user t of
           None \<Rightarrow> (counts, recent)
         | Some (uid_val, uname) \<Rightarrow>
             (let counts1 = dict_set counts uid_val (dict_get counts uid_val 0 + 1) in
              case o_write_date t of
                None \<Rightarrow> (counts1, recent)
              | Some wdate \<Rightarrow>
                  if wdate = [] then (counts1, recent)
                  else
                    (case recent_try parse cutoff wdate uid_val recent of
                       Inl _ \<Rightarrow> (counts1, recent)
                     | Inr recent1 \<Rightarrow> (counts1, recent1)))))"

text \<open>Lines 218 to 234 without the clock: both dicts start empty.\<close>

definition aggregate ::
  "(string \<Rightarrow> int option) \<Rightarrow> datetime \<Rightarrow> open_task list
     \<Rightarrow> (int, int) dict \<times> (int, bool) dict" where
  "aggregate parse cutoff open_tasks = foldl (aggregate_step parse cutoff) ([], []) open_tasks"

text \<open>
  Lines 236 to 244: the ids of the preferred developers, \<open>None\<close> when no key applies.
  An empty key is false in \<^verbatim>\<open>if pref_key\<close>.
\<close>

definition preferred_ids_of ::
  "'db gateway \<Rightarrow> (string, string list) dict \<Rightarrow> int \<Rightarrow> string \<Rightarrow> 'db world
     \<Rightarrow> (int list option, 'db world) step" where
  "preferred_ids_of gw preferred_map project_id project_name w =
     (case pick_project_key preferred_map project_id project_name of
        None \<Rightarrow> Next None w
      | Some pref_key \<Rightarrow>
          if pref_key = [] then Next None w
          else
            (case map_of preferred_map pref_key of
               None \<Rightarrow> Crash KeyError w
             | Some identifiers \<Rightarrow>
                 (let resolved = resolve_users gw (remote w) identifiers;
                      preferred_ids = map u_id (List.map_filter id (dict_values resolved));
                      missing = map fst (filter (\<lambda>kv. snd kv = None) resolved)
                  in Next (Some preferred_ids)
                       (if missing \<noteq> []
                        then emit (Print (''Preferred devs not found: '' @ join '', '' missing)) w
                        else w))))"

text \<open>Line 247.\<close>

definition candidate_ids_of :: "int list option \<Rightarrow> (int, int) dict \<Rightarrow> int list" where
  "candidate_ids_of preferred_ids counts =
     (case preferred_ids of
        None \<Rightarrow> dict_keys counts
      | Some ids \<Rightarrow> if ids \<noteq> [] then ids else dict_keys counts)"

text \<open>Lines 255 to 265, one candidate record.\<close>

definition enrich :: "(string, string) dict \<Rightarrow> (int, int) dict \<Rightarrow> (int, bool) dict \<Rightarrow> user \<Rightarrow> candidate" where
  "enrich role_map counts recent u =
     \<lparr>c_id = u_id u, c_name = u_name u, c_login = u_login u, c_email = u_email u,
      c_role = resolve_role role_map u,
      c_count = dict_get counts (u_id u) 0,
      c_recent = dict_get recent (u_id u) False\<rparr>"

text \<open>
  Line 268, \<^verbatim>\<open>candidates.sort(key=lambda x: (-x["count"], x["name"]))\<close>: a stable sort
  on the pair, compared lexicographically, strings by their characters.
\<close>

definition rank_key :: "candidate \<Rightarrow> int \<times> string" where
  "rank_key x = (- c_count x, c_name x)"

definition rank :: "candidate list \<Rightarrow> candidate list" where
  "rank candidates = sort_key rank_key candidates"

text \<open>Lines 270 to 275: the listing shown to the operator.\<close>

definition candidate_line :: "nat \<times> candidate \<Rightarrow> string" where
  "candidate_line ic =
     (case ic of (i, c) \<Rightarrow>
        str_nat i @ ''. '' @ c_name c @ '' | '' @ c_role c
        @ '' | open tasks in project: '' @ str_int (c_count c)
        @ (if c_recent c then '' recent'' else []))"

definition present :: "task \<Rightarrow> string \<Rightarrow> candidate list \<Rightarrow> 'db world \<Rightarrow> 'db world" where
  "present task project_name candidates w =
     emit_all
       ([Print (''Task: '' @ t_name task),
         Print (''Project: '' @ project_name
                @ '' | Priority: '' @ (case t_priority task of None \<Rightarrow> ''0'' | Some p \<Rightarrow> p)
                @ '' | Current: '' @ ref_name (t_user task)),
         Print ''Candidates (most project tasks first):'']
        @ map (Print \<circ> candidate_line) (enumerate1 candidates)) w"

text \<open>
  Lines 277 to 288: confirm the first candidate, or ask for a number. \<^verbatim>\<open>candidates[0]\<close>
  raises on an empty list.
\<close>

definition decide :: "candidate list \<Rightarrow> 'db world \<Rightarrow> (candidate, 'db world) step" where
  "decide candidates w =
     (case candidates of
        [] \<Rightarrow> Crash IndexError w
      | top_c # _ \<Rightarrow>
          (case input (''Assign to '' @ c_name top_c @ ''? [y/N] '') w of
             Crash e w1 \<Rightarrow> Crash e w1
           | Continue w1 \<Rightarrow> Continue w1
           | Next yn w1 \<Rightarrow>
               if lower (strip yn) \<noteq> ''y'' then
                 (case input ''Enter candidate number to assign (or blank to skip): '' w1 of
                    Crash e w2 \<Rightarrow> Crash e w2
                  | Continue w2 \<Rightarrow> Continue w2
                  | Next l w2 \<Rightarrow>
                      (let sel = strip l in
                       if sel = [] then Continue (emit (Print ''Skipped'') w2)
                       else
                         (case index_by_text candidates sel of
                            Inl _ \<Rightarrow> Continue (emit (Print ''Invalid selection, skipped'') w2)
                          | Inr c \<Rightarrow> Next c w2)))
               else Next top_c w1))"

text \<open>Lines 290 to 298: report in dry-run mode, write otherwise.\<close>

definition commit :: "'db gateway \<Rightarrow> bool \<Rightarrow> task \<Rightarrow> candidate \<Rightarrow> 'db world \<Rightarrow> 'db world" where
  "commit gw dry_run task top_c w =
     (if dry_run then
        emit (Print (''Dry-run: would assign task '' @ str_int (t_id task)
                     @ '' to '' @ c_name top_c)) w
      else
        (case write_user gw (remote w) (t_id task) (c_id top_c) of
           (ok, db1) \<Rightarrow>
             (let w1 = (emit (Write (t_id task) (c_id top_c)) w)\<lparr>remote := db1\<rparr> in
              if ok then emit (Print (''Assigned to '' @ c_name top_c)) w1
              else emit (Print ''Assign failed'') w1)))"

text \<open>
  Lines 246 to 298, from the candidate ids on: \<^verbatim>\<open>No candidates found\<close> for an empty
  list, else read, enrich, rank, show, decide and commit.
\<close>

definition assign_from ::
  "'db gateway \<Rightarrow> config \<Rightarrow> bool \<Rightarrow> task \<Rightarrow> string
     \<Rightarrow> (int, int) dict \<Rightarrow> (int, bool) dict \<Rightarrow> int list \<Rightarrow> 'db world
     \<Rightarrow> error \<times> 'db world + 'db world" where
  "assign_from gw cfg dry_run task project_name counts recent candidate_ids w =
     (if candidate_ids = [] then Inr (emit (Print ''No candidates found'') w)
      else
        (let cand_records = read_users gw (remote w) candidate_ids;
             candidates = rank (map (enrich (developer_roles cfg) counts recent) cand_records);
             w1 = present task project_name candidates w
         in case decide candidates w1 of
              Crash e w2 \<Rightarrow> Inl (e, w2)
            | Continue w2 \<Rightarrow> Inr w2
            | Next top_c w2 \<Rightarrow> Inr (commit gw dry_run task top_c w2)))"

text \<open>
  Lines 178 to 250 for a selected ticket: project check, open stages, workload, preferred
  developers, candidate ids, then \<open>assign_from\<close>.
\<close>

definition assign_task ::
  "'db gateway \<Rightarrow> config \<Rightarrow> (string \<Rightarrow> int option) \<Rightarrow> bool \<Rightarrow> task \<Rightarrow> 'db world
     \<Rightarrow> error \<times> 'db world + 'db world" where
  "assign_task gw cfg parse dry_run task w =
     (case t_project task of
        None \<Rightarrow> Inr (emit (Print ''Task has no project; skipping'') w)
      | Some (project_id, project_name) \<Rightarrow>
          (case resolve_open_stages gw (open_stage_names cfg) (remote w) of
             None \<Rightarrow> Inr (emit (Print ''No open stages found; skipping'') w)
           | Some stage_id_list \<Rightarrow>
               (let open_tasks = open_tasks_of gw (remote w) project_id stage_id_list in
                case cutoff_of (clock w) (recent_days cfg) of
                  Inl e \<Rightarrow> Inl (e, w)
                | Inr cutoff \<Rightarrow>
                    (case aggregate parse cutoff open_tasks of
                       (counts, recent) \<Rightarrow>
                         (case preferred_ids_of gw (preferred_developers cfg)
                                 project_id project_name w of
                            Crash e w1 \<Rightarrow> Inl (e, w1)
                          | Continue w1 \<Rightarrow> Inr w1
                          | Next preferred_ids w1 \<Rightarrow>
                              assign_from gw cfg dry_run task project_name counts recent
                                (candidate_ids_of preferred_ids counts) w1)))))"

text \<open>Lines 152 to 176: announce the code, query the tickets, dump them, select one.\<close>

definition lookup_task :: "'db gateway \<Rightarrow> string \<Rightarrow> 'db world \<Rightarrow> (task, 'db world) step" where
  "lookup_task gw code w =
     (let w1 = emit (Print (CHR 0x0A # ''=== '' @ code @ '' ==='')) w;
          tasks = tasks_by_code gw (remote w1) code;
          w2 = emit (PrintTasks tasks) w1
      in select_task tasks w2)"

text \<open>Lines 152 to 298: the loop body for one reference code.\<close>

definition process_code ::
  "'db gateway \<Rightarrow> config \<Rightarrow> (string \<Rightarrow> int option) \<Rightarrow> bool \<Rightarrow> string \<Rightarrow> 'db world
     \<Rightarrow> error \<times> 'db world + 'db world" where
  "process_code gw cfg parse dry_run code w =
     (case lookup_task gw code w of
        Crash e w3 \<Rightarrow> Inl (e, w3)
      | Continue w3 \<Rightarrow> Inr w3
      | Next task w3 \<Rightarrow> assign_task gw cfg parse dry_run task w3)"

text \<open>Line 151: the loop over the codes; an uncaught exception ends it.\<close>

fun run_codes ::
  "'db gateway \<Rightarrow> config \<Rightarrow> (string \<Rightarrow> int option) \<Rightarrow> bool \<Rightarrow> string list \<Rightarrow> 'db world
     \<Rightarrow> error \<times> 'db world + 'db world" where
  "run_codes gw cfg parse dry_run [] w = Inr w"
| "run_codes gw cfg parse dry_run (code # codes) w =
     (case process_code gw cfg parse dry_run code w of
        Inl e \<Rightarrow> Inl e
      | Inr w1 \<Rightarrow> run_codes gw cfg parse dry_run codes w1)"

text \<open>The world a run ends in, whether it died or not.\<close>

definition world_after :: "error \<times> 'w + 'w \<Rightarrow> 'w" where
  "world_after r = (case r of Inl (e, w) \<Rightarrow> w | Inr w \<Rightarrow> w)"

text \<open>
  Two worlds with the same remote state and the same write calls so far: nothing was sent
  to the gateway for writing between them.
\<close>

definition same_remote :: "'db world \<Rightarrow> 'db world \<Rightarrow> bool" where
  "same_remote w w' = (remote w' = remote w \<and> writes (trace w') = writes (trace w))"

text \<open>The world a block ends in.\<close>

definition step_world :: "('a, 'w) step \<Rightarrow> 'w" where
  "step_world s = (case s of Crash e w \<Rightarrow> w | Continue w \<Rightarrow> w | Next x w \<Rightarrow> w)"

section \<open>The digest tool: \<^verbatim>\<open>scripts/daily_morning.py\<close>\<close>

text \<open>The fields of a ticket that lines 104 to 127 read, all with \<^verbatim>\<open>.get\<close>.\<close>

record digest_task =
  d_code :: "string option"
  d_name :: "string option"
  d_project :: "(int \<times> string) option"

text \<open>Lines 107 and 108.\<close>

definition group_name :: "digest_task \<Rightarrow> string" where
  "group_name t = (case d_project t of None \<Rightarrow> ''No Project'' | Some (_, n) \<Rightarrow> n)"

text \<open>Line 109, \<^verbatim>\<open>grouped.setdefault(pname, []).append(t)\<close>.\<close>

definition setdefault_append :: "('k, 'v list) dict \<Rightarrow> 'k \<Rightarrow> 'v \<Rightarrow> ('k, 'v list) dict" where
  "setdefault_append grouped k v = dict_set grouped k (dict_get grouped k [] @ [v])"

text \<open>Lines 105 to 109.\<close>

definition group_tasks :: "digest_task list \<Rightarrow> (string, digest_task list) dict" where
  "group_tasks tasks = foldl (\<lambda>grouped t. setdefault_append grouped (group_name t) t) [] tasks"

text \<open>\<^verbatim>\<open>t.get(f) or "-"\<close>, lines 124 and 125: a missing or empty field reads as a dash.\<close>

definition or_dash :: "string option \<Rightarrow> string" where
  "or_dash v = (case v of None \<Rightarrow> ''-'' | Some s \<Rightarrow> if s = [] then ''-'' else s)"

text \<open>Line 126.\<close>

definition digest_line :: "string \<Rightarrow> digest_task \<Rightarrow> string" where
  "digest_line pname t = or_dash (d_code t) @ '' - '' @ pname @ '' - '' @ or_dash (d_name t)"

text \<open>Lines 122 to 127: header, one line for each ticket of the group, an empty line.\<close>

definition digest_group :: "string \<Rightarrow> digest_task list \<Rightarrow> string list" where
  "digest_group pname ts = pname # map (digest_line pname) ts @ [[]]"

text \<open>Lines 104 to 109 and 121 to 127: the printed lines after the date header.\<close>

definition digest_body :: "digest_task list \<Rightarrow> string list" where
  "digest_body tasks =
     (let grouped = group_tasks tasks in
      concat (map (\<lambda>pname. digest_group pname (dict_get grouped pname []))
                  (sort (dict_keys grouped))))"

text \<open>
  Lines 118 to 127; \<open>date_str\<close> is the date as \<^verbatim>\<open>strftime("%d %b %Y")\<close> writes it and
  \<open>signature\<close> the value of \<^verbatim>\<open>--by\<close>.
\<close>

definition digest_report :: "string \<Rightarrow> string \<Rightarrow> digest_task list \<Rightarrow> string list" where
  "digest_report date_str signature tasks =
     (date_str @ '' To Do List By '' @ signature) # [] # digest_body tasks"

section \<open>The role precedence written as a chain of tests\<close>

text \<open>
  To be compared with \<open>resolve_role\<close>: a key counts when it is set, not empty and
  in the map; the display name is asked first, then the login, then the email address,
  and the label is a dash when none counts.
\<close>

definition usable_key :: "(string, string) dict \<Rightarrow> string option \<Rightarrow> bool" where
  "usable_key role_map key = (case key of None \<Rightarrow> False | Some k \<Rightarrow> k \<noteq> [] \<and> map_of role_map k \<noteq> None)"

definition role_at :: "(string, string) dict \<Rightarrow> string option \<Rightarrow> string" where
  "role_at role_map key = (case key of None \<Rightarrow> ''-'' | Some k \<Rightarrow> dict_get role_map k ''-'')"

definition spec_role :: "(string, string) dict \<Rightarrow> user \<Rightarrow> string" where
  "spec_role role_map u =
     (if usable_key role_map (Some (u_name u)) then role_at role_map (Some (u_name u))
      else if usable_key role_map (u_login u) then role_at role_map (u_login u)
      else if usable_key role_map (u_email u) then role_at role_map (u_email u)
      else ''-'')"

section \<open>A gateway over an in-memory store\<close>

text \<open>
  The theorems below hold for every gateway. To run the model on explicit inputs, the
  following gateway answers the queries from lists held in memory: tickets with their
  reference code, stages with their folded flag, open tickets with project and stage,
  and users.
\<close>

record store =
  st_tasks :: "(string \<times> task) list"
  st_stages :: "(stage \<times> bool) list"
  st_open :: "(int \<times> int \<times> open_task) list"
  st_users :: "user list"

definition store_assign :: "store \<Rightarrow> int \<Rightarrow> int \<Rightarrow> bool \<times> store" where
  "store_assign db tid uid =
     (let nm = (case filter (\<lambda>u. u_id u = uid) (st_users db) of [] \<Rightarrow> [] | u # _ \<Rightarrow> u_name u)
      in (tid \<in> set (map (t_id \<circ> snd) (st_tasks db)),
          db\<lparr>st_tasks :=
               map (\<lambda>ct. if t_id (snd ct) = tid
                          then (fst ct, (snd ct)\<lparr>t_user := Some (uid, nm)\<rparr>) else ct)
                   (st_tasks db)\<rparr>))"

definition store_gateway :: "store gateway" where
  "store_gateway =
     \<lparr>tasks_by_code = (\<lambda>db code. map snd (filter (\<lambda>ct. fst ct = code) (st_tasks db))),
      stages_by_names = (\<lambda>db names. map fst (filter (\<lambda>sf. s_name (fst sf) \<in> set names) (st_stages db))),
      stages_unfolded = (\<lambda>db. map fst (filter (\<lambda>sf. \<not> snd sf) (st_stages db))),
      open_tasks_of = (\<lambda>db pid sids.
         map (snd \<circ> snd)
           (filter (\<lambda>pst. fst pst = pid \<and> fst (snd pst) \<in> set sids
                           \<and> o_user (snd (snd pst)) \<noteq> None) (st_open db))),
      users_by_ident = (\<lambda>db ident.
         take 1 (filter (\<lambda>u. u_login u = Some ident \<or> u_email u = Some ident \<or> u_name u = ident)
                        (st_users db))),
      read_users = (\<lambda>db ids. concat (map (\<lambda>i. filter (\<lambda>u. u_id u = i) (st_users db)) ids)),
      write_user = store_assign\<rparr>"

text \<open>Two developers, one ticket \<open>TSK-AB-1\<close> of project Alpha (id 42), one open stage.\<close>

definition dev_ann :: user where
  "dev_ann = \<lparr>u_id = 1, u_name = ''Ann'', u_login = Some ''ann'', u_email = Some ''ann@example.org''\<rparr>"

definition dev_bob :: user where
  "dev_bob = \<lparr>u_id = 2, u_name = ''Bob'', u_login = Some ''bob'', u_email = None\<rparr>"

definition ticket1 :: task where
  "ticket1 = \<lparr>t_id = 100, t_name = ''Fix login'', t_project = Some (42, ''Alpha''),
              t_user = None, t_priority = Some ''1''\<rparr>"

definition open_of :: "int \<Rightarrow> string \<Rightarrow> string option \<Rightarrow> open_task" where
  "open_of uid nm wd = \<lparr>o_user = Some (uid, nm), o_write_date = wd\<rparr>"

definition store1 :: store where
  "store1 =
     \<lparr>st_tasks = [(''TSK-AB-1'', ticket1)],
      st_stages = [(\<lparr>s_id = 5, s_name = ''In Progress''\<rparr>, False), (\<lparr>s_id = 9, s_name = ''Done''\<rparr>, True)],
      st_open = [(42, 5, open_of 1 ''Ann'' (Some ''2024-05-10 12:00:00'')),
                 (42, 5, open_of 2 ''Bob'' None),
                 (42, 5, open_of 2 ''Bob'' (Some ''yesterday''))],
      st_users = [dev_ann, dev_bob]\<rparr>"

definition config1 :: config where
  "config1 = \<lparr>open_stage_names = [''In Progress''], preferred_developers = [],
              developer_roles = [(''Ann'', ''backend'')], recent_days = 7\<rparr>"

text \<open>
  A parser that agrees with \<^verbatim>\<open>strptime\<close> on the strings of \<open>store1\<close>: noon of
  2024-05-10 is 1715342400 seconds after the epoch, and \<open>yesterday\<close> does not parse.
\<close>

definition parse1 :: "string \<Rightarrow> int option" where
  "parse1 s = (if s = ''2024-05-10 12:00:00'' then Some 1715342400 else None)"

definition world_of :: "'db \<Rightarrow> string list \<Rightarrow> int \<Rightarrow> 'db world" where
  "world_of db lines now = \<lparr>remote = db, console = lines, trace = [], clock = now\<rparr>"

text \<open>Candidate records for the ranking: two users with one display name, and three others.\<close>

definition cand :: "int \<Rightarrow> string \<Rightarrow> int \<Rightarrow> candidate" where
  "cand i n k = \<lparr>c_id = i, c_name = n, c_login = None, c_email = None, c_role = ''-'',
                c_count = k, c_recent = False\<rparr>"

definition alex1 :: candidate where
  "alex1 = cand 1 ''Alex'' 0"

definition alex2 :: candidate where
  "alex2 = cand 2 ''Alex'' 0"

text \<open>Tickets for the digest: with a project, without a code, and without project, code and title.\<close>

definition dt_beta :: digest_task where
  "dt_beta = \<lparr>d_code = Some ''TSK-B-2'', d_name = Some ''Write docs'', d_project = Some (2, ''Beta'')\<rparr>"

definition dt_alpha :: digest_task where
  "dt_alpha = \<lparr>d_code = Some ''TSK-A-1'', d_name = Some [], d_project = Some (1, ''Alpha'')\<rparr>"

definition dt_nocode :: digest_task where
  "dt_nocode = \<lparr>d_code = None, d_name = Some ''Call client'', d_project = Some (2, ''Beta'')\<rparr>"

definition dt_none :: digest_task where
  "dt_none = \<lparr>d_code = None, d_name = None, d_project = None\<rparr>"

text \<open>The store without any stage, and the store without any open ticket.\<close>

definition store_nostage :: store where
  "store_nostage = store1\<lparr>st_stages := []\<rparr>"

definition store_idle :: store where
  "store_idle = store1\<lparr>st_open := []\<rparr>"

text \<open>
  The candidates of \<open>ticket1\<close> in \<open>store1\<close> as they are ranked, Bob without open
  ticket, and the lines printed for \<open>ticket1\<close> up to the candidate listing.
\<close>

definition bob_c :: candidate where
  "bob_c = \<lparr>c_id = 2, c_name = ''Bob'', c_login = Some ''bob'', c_email = None,
            c_role = ''-'', c_count = 2, c_recent = False\<rparr>"

definition ann_c :: candidate where
  "ann_c = \<lparr>c_id = 1, c_name = ''Ann'', c_login = Some ''ann'', c_email = Some ''ann@example.org'',
            c_role = ''backend'', c_count = 1, c_recent = False\<rparr>"

definition listing1 :: "event list" where
  "listing1 =
     [Print (CHR 0x0A # ''=== TSK-AB-1 ===''), PrintTasks [ticket1],
      Print ''Task: Fix login'',
      Print ''Project: Alpha | Priority: 1 | Current: -'',
      Print ''Candidates (most project tasks first):'',
      Print ''1. Bob | - | open tasks in project: 2'',
      Print ''2. Ann | backend | open tasks in project: 1'']"

definition bob_idle :: candidate where
  "bob_idle = \<lparr>c_id = 2, c_name = ''Bob'', c_login = Some ''bob'', c_email = None,
            c_role = ''-'', c_count = 0, c_recent = False\<rparr>"

section \<open>Ranking (line 268)\<close>

lemma rank_key_le:
  "rank_key a \<le> rank_key b \<longleftrightarrow>
     c_count b < c_count a \<or> (c_count a = c_count b \<and> c_name a \<le> c_name b)"
  by (auto simp: rank_key_def less_eq_prod_def)

lemma rank_sorted_wrt:
  "sorted_wrt (\<lambda>a b. c_count b < c_count a \<or> (c_count a = c_count b \<and> c_name a \<le> c_name b))
     (rank cs)"
proof -
  have "sorted (map rank_key (rank cs))"
    unfolding rank_def by (rule sorted_sort_key)
  then show ?thesis
    by (simp add: sorted_map rank_key_le)
qed

lemma rank_keys_of_mset:
  assumes "mset cs' = mset cs"
  shows "map rank_key (rank cs') = map rank_key (rank cs)"
proof -
  have "mset (map rank_key (rank cs')) = mset (map rank_key (rank cs))"
    using assms by (simp add: rank_def)
  moreover have "sorted (map rank_key (rank cs'))" "sorted (map rank_key (rank cs))"
    by (simp_all add: rank_def)
  ultimately show ?thesis
    by (metis properties_for_sort)
qed

lemma rank_stable: "filter (\<lambda>x. rank_key x = k) (rank cs) = filter (\<lambda>x. rank_key x = k) cs"
  unfolding rank_def by (rule sort_key_stable)

lemma set_rank: "set (rank cs) = set cs"
  by (simp add: rank_def)

text \<open>
  C4, as stated, fails: the sort is stable, so two candidates with the same count and the
  same display name come out in the order they went in. Here two users are both called
  Alex and have no open ticket.
\<close>

theorem rank_permutation_counterexample:
  "mset [alex2, alex1] = mset [alex1, alex2] \<and> rank [alex2, alex1] \<noteq> rank [alex1, alex2]"
  by (simp add: rank_def rank_key_def alex1_def alex2_def cand_def)

text \<open>
  C4, amended. The ranked list holds the candidates that went in, by descending count and,
  within one count, by ascending display name. For two input orders of the same records
  the sequences of (count, name) pairs are equal; candidates that agree on both keep
  their input order; and when no two candidates agree on both, the ranked lists are equal.
\<close>

theorem rank_order:
  assumes "mset cs' = mset cs"
  shows "sorted_wrt (\<lambda>a b. c_count b < c_count a
                        \<or> (c_count a = c_count b \<and> c_name a \<le> c_name b)) (rank cs)
       \<and> mset (rank cs) = mset cs
       \<and> map rank_key (rank cs') = map rank_key (rank cs)
       \<and> filter (\<lambda>x. rank_key x = k) (rank cs) = filter (\<lambda>x. rank_key x = k) cs
       \<and> (inj_on rank_key (set cs) \<longrightarrow> rank cs' = rank cs)"
proof -
  have "inj_on rank_key (set cs) \<longrightarrow> rank cs' = rank cs"
    using sort_key_eq_sort_key [of cs cs' rank_key] assms by (simp add: rank_def)
  then show ?thesis
    using assms rank_sorted_wrt [of cs] rank_keys_of_mset [of cs' cs] rank_stable [of k cs]
    by (simp add: rank_def)
qed

theorem rank_order_witness:
  "mset [cand 3 ''Cy'' 4, cand 1 ''Bob'' 1, cand 2 ''Ann'' 1]
     = mset [cand 1 ''Bob'' 1, cand 2 ''Ann'' 1, cand 3 ''Cy'' 4]
   \<and> inj_on rank_key (set [cand 1 ''Bob'' 1, cand 2 ''Ann'' 1, cand 3 ''Cy'' 4])
   \<and> rank [cand 3 ''Cy'' 4, cand 1 ''Bob'' 1, cand 2 ''Ann'' 1]
       = rank [cand 1 ''Bob'' 1, cand 2 ''Ann'' 1, cand 3 ''Cy'' 4]
   \<and> rank [cand 1 ''Bob'' 1, cand 2 ''Ann'' 1, cand 3 ''Cy'' 4]
       = [cand 3 ''Cy'' 4, cand 2 ''Ann'' 1, cand 1 ''Bob'' 1]"
proof -
  have p: "mset [cand 3 ''Cy'' 4, cand 1 ''Bob'' 1, cand 2 ''Ann'' 1]
             = mset [cand 1 ''Bob'' 1, cand 2 ''Ann'' 1, cand 3 ''Cy'' 4]"
    by simp
  have i: "inj_on rank_key (set [cand 1 ''Bob'' 1, cand 2 ''Ann'' 1, cand 3 ''Cy'' 4])"
    by (simp add: rank_key_def cand_def)
  have v: "rank [cand 1 ''Bob'' 1, cand 2 ''Ann'' 1, cand 3 ''Cy'' 4]
             = [cand 3 ''Cy'' 4, cand 2 ''Ann'' 1, cand 1 ''Bob'' 1]"
    by (simp add: rank_def rank_key_def cand_def less_eq_prod_def)
  show ?thesis
    using p i v rank_order [OF p, of "(0, [])"] by blast
qed

section \<open>Dictionaries\<close>

lemma map_of_dict_set: "map_of (dict_set d k v) = (map_of d)(k \<mapsto> v)"
  by (induction d) auto

lemma dict_get_dict_set:
  "dict_get (dict_set d k v) k' dflt = (if k' = k then v else dict_get d k' dflt)"
  by (simp add: dict_get_def map_of_dict_set)

section \<open>Workload and recency (lines 218 to 234)\<close>

text \<open>
  The cutoff of line 220 is aware, the value parsed at line 230 is naive, so the
  comparison of line 231 raises whenever it is reached, and the handler of line 233
  leaves the dict of flags as it was.
\<close>

lemma cutoff_of_aware: "cutoff_of now days = Inr c \<Longrightarrow> utcoffset c = Some 0"
  by (auto simp: cutoff_of_def utc_now_def Let_def split: if_splits)

lemma recent_try_aware:
  "utcoffset cutoff = Some z \<Longrightarrow>
   recent_try parse cutoff s u recent = Inl (if parse s = None then ValueError else TypeError)"
  by (simp add: recent_try_def datetime_strptime_def dt_ge_def split: option.splits)

lemma aggregate_step_recent:
  "utcoffset cutoff = Some z \<Longrightarrow> snd (aggregate_step parse cutoff acc t) = snd acc"
  by (cases acc) (simp add: aggregate_step_def recent_try_aware Let_def split: option.splits prod.splits)

lemma foldl_aggregate_recent:
  "utcoffset cutoff = Some z \<Longrightarrow> snd (foldl (aggregate_step parse cutoff) acc ts) = snd acc"
  by (induction ts arbitrary: acc) (simp_all add: aggregate_step_recent)

lemma aggregate_recent_empty:
  "cutoff_of now days = Inr cutoff \<Longrightarrow> snd (aggregate parse cutoff ts) = []"
  using cutoff_of_aware [of now days cutoff] foldl_aggregate_recent [of cutoff 0 parse "([], [])" ts]
  by (simp add: aggregate_def)

lemma aggregate_step_count:
  "dict_get (fst (aggregate_step parse cutoff acc t)) u 0
     = dict_get (fst acc) u 0 + (if map_option fst (o_user t) = Some u then 1 else 0)"
  by (cases acc)
     (auto simp: aggregate_step_def Let_def dict_get_dict_set split: option.splits prod.splits sum.splits)

lemma foldl_aggregate_count:
  "dict_get (fst (foldl (aggregate_step parse cutoff) acc ts)) u 0
     = dict_get (fst acc) u 0 + int (length (filter (\<lambda>t. map_option fst (o_user t) = Some u) ts))"
  by (induction ts arbitrary: acc) (simp_all add: aggregate_step_count)

lemma aggregate_count:
  "dict_get (fst (aggregate parse cutoff ts)) u 0
     = int (length (filter (\<lambda>t. map_option fst (o_user t) = Some u) ts))"
  using foldl_aggregate_count [of parse cutoff "([], [])" ts u]
  by (simp add: aggregate_def dict_get_def)

text \<open>
  C1. The claim asks for a true flag when a ticket of the developer was written inside
  the window. In the code the flag is never set: for every parser, every clock reading
  and every list of open tickets the dict \<open>recent\<close> is empty after the loop, and the
  flag of every candidate is false.
\<close>

theorem recent_never_set:
  assumes "cutoff_of now days = Inr cutoff"
  shows "snd (aggregate parse cutoff open_tasks) = []
       \<and> c_recent (enrich role_map counts (snd (aggregate parse cutoff open_tasks)) u) = False"
  using aggregate_recent_empty [OF assms, of parse open_tasks]
  by (simp add: enrich_def dict_get_def)

text \<open>
  The failing input: one open ticket of Ann, written at 2024-05-10 12:00:00, read at that
  same instant with a window of 7 days. The cutoff lies 7 days before the time of
  writing, the ticket is counted, and Ann's flag is false.
\<close>

theorem recent_never_set_witness:
  "cutoff_of 1715342400 7 = Inr \<lparr>wall = 1714737600, utcoffset = Some 0\<rparr>
   \<and> parse1 ''2024-05-10 12:00:00'' = Some 1715342400
   \<and> (1714737600 :: int) \<le> 1715342400
   \<and> aggregate parse1 \<lparr>wall = 1714737600, utcoffset = Some 0\<rparr>
        [open_of 1 ''Ann'' (Some ''2024-05-10 12:00:00'')] = ([(1, 1)], [])
   \<and> c_recent (enrich [] [(1, 1)]
        (snd (aggregate parse1 \<lparr>wall = 1714737600, utcoffset = Some 0\<rparr>
               [open_of 1 ''Ann'' (Some ''2024-05-10 12:00:00'')])) dev_ann) = False"
proof -
  have c: "cutoff_of 1715342400 7 = Inr \<lparr>wall = 1714737600, utcoffset = Some 0\<rparr>"
    by (simp add: cutoff_of_def utc_now_def)
  have a: "aggregate parse1 \<lparr>wall = 1714737600, utcoffset = Some 0\<rparr>
        [open_of 1 ''Ann'' (Some ''2024-05-10 12:00:00'')] = ([(1, 1)], [])"
    by (simp add: aggregate_def aggregate_step_def open_of_def dict_get_def recent_try_def
          datetime_strptime_def parse1_def dt_ge_def)
  show ?thesis
    using c a recent_never_set [OF c, of parse1 "[open_of 1 ''Ann'' (Some ''2024-05-10 12:00:00'')]" "[]" "[(1, 1)]" dev_ann]
    by (simp add: parse1_def)
qed

text \<open>
  C6. A record with an assignee whose time of writing is missing, empty or not parsable
  adds one to the count of its developer and leaves the dict of flags as it is; the loop
  step is a value, not an exception. The same is said for the record at the end of any
  list of open tickets.
\<close>

theorem unparsable_counts_not_recent:
  assumes "o_user t = Some (u, nm)"
    and "o_write_date t = None \<or> o_write_date t = Some [] \<or> (\<exists>s. o_write_date t = Some s \<and> parse s = None)"
  shows "aggregate_step parse cutoff (counts, recent) t
           = (dict_set counts u (dict_get counts u 0 + 1), recent)
       \<and> dict_get (fst (aggregate parse cutoff (ts @ [t]))) u 0
           = dict_get (fst (aggregate parse cutoff ts)) u 0 + 1
       \<and> snd (aggregate parse cutoff (ts @ [t])) = snd (aggregate parse cutoff ts)"
proof -
  have step: "aggregate_step parse cutoff (c, r) t = (dict_set c u (dict_get c u 0 + 1), r)" for c r
    using assms
    by (auto simp: aggregate_step_def Let_def recent_try_def datetime_strptime_def
             split: option.splits)
  obtain c r where cr: "aggregate parse cutoff ts = (c, r)"
    by (cases "aggregate parse cutoff ts")
  have "aggregate parse cutoff (ts @ [t]) = (dict_set c u (dict_get c u 0 + 1), r)"
    using cr step [of c r] by (simp add: aggregate_def)
  then show ?thesis
    using cr step [of counts recent] by (simp add: dict_get_dict_set)
qed

theorem unparsable_counts_not_recent_witness:
  "o_user (open_of 2 ''Bob'' (Some ''yesterday'')) = Some (2, ''Bob'')
   \<and> o_write_date (open_of 2 ''Bob'' (Some ''yesterday'')) = Some ''yesterday''
   \<and> parse1 ''yesterday'' = None
   \<and> aggregate_step parse1 (utc_now 0) ([(2, 1)], [(1, True)]) (open_of 2 ''Bob'' (Some ''yesterday''))
       = ([(2, 2)], [(1, True)])"
proof -
  have u: "o_user (open_of 2 ''Bob'' (Some ''yesterday'')) = Some (2, ''Bob'')"
    by (simp add: open_of_def)
  have d: "o_write_date (open_of 2 ''Bob'' (Some ''yesterday'')) = Some ''yesterday''"
    by (simp add: open_of_def)
  have p: "parse1 ''yesterday'' = None"
    by (simp add: parse1_def)
  have h: "o_write_date (open_of 2 ''Bob'' (Some ''yesterday'')) = None
           \<or> o_write_date (open_of 2 ''Bob'' (Some ''yesterday'')) = Some []
           \<or> (\<exists>s. o_write_date (open_of 2 ''Bob'' (Some ''yesterday'')) = Some s \<and> parse1 s = None)"
    using d p by simp
  show ?thesis
    using u d p unparsable_counts_not_recent [OF u h, of "utc_now 0" "[(2, 1)]" "[(1, True)]" "[]"]
    by (simp add: dict_get_def)
qed

section \<open>Enrichment (lines 96 to 105 and 253 to 265)\<close>

lemma first_role_skip:
  "\<not> usable_key rm key \<Longrightarrow> first_role rm (key # keys) = first_role rm keys"
  by (auto simp: usable_key_def dict_mem_def split: option.splits)

lemma first_role_hit:
  "usable_key rm key \<Longrightarrow> first_role rm (key # keys) = role_at rm key"
  by (auto simp: usable_key_def role_at_def dict_mem_def split: option.splits)

lemma usable_key_empty: "\<not> usable_key [] key"
  by (simp add: usable_key_def split: option.splits)

lemma resolve_role_spec: "resolve_role rm u = spec_role rm u"
proof (cases "rm = []")
  case True
  then show ?thesis by (simp add: resolve_role_def spec_role_def usable_key_empty)
next
  case False
  then show ?thesis
    by (simp add: resolve_role_def spec_role_def first_role_skip first_role_hit
             del: first_role.simps(2))
qed

text \<open>
  C7, as stated, fails on the label: where no key matches, the code answers with a dash,
  not with the word \<open>unknown\<close>. Bob is not in the role map of \<open>config1\<close>.
\<close>

theorem role_sentinel_counterexample:
  "c_role (enrich (developer_roles config1) [] [] dev_bob) = ''-''
   \<and> c_role (enrich (developer_roles config1) [] [] dev_bob) \<noteq> ''unknown''"
  by (simp add: enrich_def resolve_role_def config1_def dev_bob_def dict_mem_def)

text \<open>
  C7, amended. The candidate record carries the count of the workload dict or 0, the
  flag of the recency dict or false, and the role found under the first of display
  name, login and email that is set, not empty and in the role map, or a dash when there
  is none. The function is total: no input makes it fail.
\<close>

theorem enrich_fields:
  "enrich role_map counts recent u =
     \<lparr>c_id = u_id u, c_name = u_name u, c_login = u_login u, c_email = u_email u,
      c_role = spec_role role_map u,
      c_count = (case map_of counts (u_id u) of None \<Rightarrow> 0 | Some n \<Rightarrow> n),
      c_recent = (case map_of recent (u_id u) of None \<Rightarrow> False | Some b \<Rightarrow> b)\<rparr>"
  by (simp add: enrich_def resolve_role_spec dict_get_def)

theorem enrich_fields_witness:
  "enrich (developer_roles config1) [(1, 3)] [] dev_ann
     = \<lparr>c_id = 1, c_name = ''Ann'', c_login = Some ''ann'', c_email = Some ''ann@example.org'',
        c_role = ''backend'', c_count = 3, c_recent = False\<rparr>
   \<and> enrich [(''bob'', ''frontend'')] [(1, 3)] [] dev_bob
     = \<lparr>c_id = 2, c_name = ''Bob'', c_login = Some ''bob'', c_email = None,
        c_role = ''frontend'', c_count = 0, c_recent = False\<rparr>"
  using enrich_fields [of "developer_roles config1" "[(1, 3)]" "[]" dev_ann]
        enrich_fields [of "[(''bob'', ''frontend'')]" "[(1, 3)]" "[]" dev_bob]
  by (simp add: spec_role_def usable_key_def role_at_def dict_get_def config1_def
        dev_ann_def dev_bob_def)

section \<open>The digest (lines 104 to 127 of \<^verbatim>\<open>daily_morning.py\<close>)\<close>

lemma keys_dict_set:
  "dict_keys (dict_set d k v) = (if k \<in> set (dict_keys d) then dict_keys d else dict_keys d @ [k])"
  by (induction d) (force simp: dict_keys_def)+

lemma map_of_setdefault_append:
  "map_of (setdefault_append g k v) = (map_of g)(k \<mapsto> dict_get g k [] @ [v])"
  by (simp add: setdefault_append_def map_of_dict_set)

lemma keys_setdefault_append:
  "dict_keys (setdefault_append g k v)
     = (if k \<in> set (dict_keys g) then dict_keys g else dict_keys g @ [k])"
  by (simp add: setdefault_append_def keys_dict_set)

lemma foldl_group_keys:
  "distinct (dict_keys g) \<Longrightarrow>
   distinct (dict_keys (foldl (\<lambda>grouped t. setdefault_append grouped (group_name t) t) g ts))
   \<and> set (dict_keys (foldl (\<lambda>grouped t. setdefault_append grouped (group_name t) t) g ts))
       = set (dict_keys g) \<union> group_name ` set ts"
  by (induction ts arbitrary: g) (auto simp: keys_setdefault_append)

lemma foldl_group_get:
  "dict_get (foldl (\<lambda>grouped t. setdefault_append grouped (group_name t) t) g ts) k []
     = dict_get g k [] @ filter (\<lambda>t. group_name t = k) ts"
proof (induction ts arbitrary: g)
  case Nil
  then show ?case by simp
next
  case (Cons t ts)
  have "dict_get (setdefault_append g (group_name t) t) k []
          = dict_get g k [] @ (if group_name t = k then [t] else [])"
    by (simp add: dict_get_def map_of_setdefault_append)
  then show ?case
    using Cons.IH [of "setdefault_append g (group_name t) t"] by simp
qed

lemma group_tasks_keys:
  "distinct (dict_keys (group_tasks ts))" "set (dict_keys (group_tasks ts)) = group_name ` set ts"
  using foldl_group_keys [of "[]" ts] by (simp_all add: group_tasks_def dict_keys_def)

lemma group_tasks_get:
  "dict_get (group_tasks ts) k [] = filter (\<lambda>t. group_name t = k) ts"
  using foldl_group_get [of "[]" ts k] by (simp add: group_tasks_def dict_get_def)

lemma digest_headers:
  "sort (dict_keys (group_tasks ts)) = sorted_list_of_set (group_name ` set ts)"
proof -
  have "sorted_list_of_set (set (dict_keys (group_tasks ts))) = sort (remdups (dict_keys (group_tasks ts)))"
    by (rule sorted_list_of_set_sort_remdups)
  then show ?thesis
    using group_tasks_keys [of ts] by (simp add: distinct_remdups_id)
qed

text \<open>
  C10. The printed body is, for each group name in ascending order and once, the name,
  one line for each ticket of that group in the order of the query, and an empty line. A
  ticket of the list is in the group of its project name, a ticket without project in the
  group \<open>No Project\<close>, and its line is printed. The line of a ticket is its code, the
  group name and its title, joined by \<open> - \<close>, where a code that is missing or empty
  is a dash and a title that is missing or empty is a dash, each on its own.
\<close>

theorem digest_groups:
  assumes "t \<in> set ts"
  shows "digest_body ts
           = concat (map (\<lambda>pname. pname # map (digest_line pname)
                                              (filter (\<lambda>t. group_name t = pname) ts) @ [[]])
                         (sorted_list_of_set (group_name ` set ts)))
       \<and> sorted (sorted_list_of_set (group_name ` set ts))
       \<and> distinct (sorted_list_of_set (group_name ` set ts))
       \<and> group_name t \<in> set (sorted_list_of_set (group_name ` set ts))
       \<and> digest_line (group_name t) t \<in> set (digest_body ts)
       \<and> group_name (t\<lparr>d_project := None\<rparr>) = ''No Project''
       \<and> digest_line pname (t\<lparr>d_code := None, d_name := None\<rparr>) = ''- - '' @ pname @ '' - -''
       \<and> digest_line pname (t\<lparr>d_code := Some [], d_name := Some []\<rparr>) = ''- - '' @ pname @ '' - -''
       \<and> digest_line pname t
           = (case d_code t of None \<Rightarrow> ''-'' | Some c \<Rightarrow> if c = [] then ''-'' else c)
             @ '' - '' @ pname @ '' - ''
             @ (case d_name t of None \<Rightarrow> ''-'' | Some n \<Rightarrow> if n = [] then ''-'' else n)
       \<and> digest_line pname (t\<lparr>d_code := None\<rparr>) = ''- - '' @ pname @ '' - '' @ or_dash (d_name t)
       \<and> digest_line pname (t\<lparr>d_code := Some []\<rparr>) = ''- - '' @ pname @ '' - '' @ or_dash (d_name t)
       \<and> digest_line pname (t\<lparr>d_name := None\<rparr>) = or_dash (d_code t) @ '' - '' @ pname @ '' - -''
       \<and> digest_line pname (t\<lparr>d_name := Some []\<rparr>) = or_dash (d_code t) @ '' - '' @ pname @ '' - -''
       \<and> or_dash None = ''-'' \<and> or_dash (Some []) = ''-'' \<and> or_dash (Some (x # xs)) = x # xs"
proof -
  have body: "digest_body ts
           = concat (map (\<lambda>pname. pname # map (digest_line pname)
                                              (filter (\<lambda>t. group_name t = pname) ts) @ [[]])
                         (sorted_list_of_set (group_name ` set ts)))"
    by (simp add: digest_body_def Let_def digest_headers group_tasks_get digest_group_def)
  have mem: "digest_line (group_name t) t \<in> set (digest_body ts)"
    unfolding body using assms by auto
  have line: "digest_line pname t
           = (case d_code t of None \<Rightarrow> ''-'' | Some c \<Rightarrow> if c = [] then ''-'' else c)
             @ '' - '' @ pname @ '' - ''
             @ (case d_name t of None \<Rightarrow> ''-'' | Some n \<Rightarrow> if n = [] then ''-'' else n)"
    by (simp add: digest_line_def or_dash_def)
  show ?thesis
    using body mem line assms by (auto simp: group_name_def digest_line_def or_dash_def)
qed

theorem digest_groups_witness:
  "dt_nocode \<in> set [dt_beta, dt_none, dt_nocode, dt_alpha]
   \<and> group_name dt_none = ''No Project''
   \<and> digest_line ''Beta'' dt_nocode = ''- - Beta - Call client''
   \<and> digest_line ''Alpha'' dt_alpha = ''TSK-A-1 - Alpha - -''
   \<and> digest_body [dt_beta, dt_none, dt_nocode, dt_alpha]
       = [''Alpha'', ''TSK-A-1 - Alpha - -'', [],
          ''Beta'', ''TSK-B-2 - Beta - Write docs'', ''- - Beta - Call client'', [],
          ''No Project'', ''- - No Project - -'', []]"
proof -
  let ?ts = "[dt_beta, dt_none, dt_nocode, dt_alpha]"
  have m: "dt_nocode \<in> set ?ts"
    by simp
  have g: "group_name dt_none = ''No Project''"
    by (simp add: group_name_def dt_none_def)
  have a: "digest_line ''Beta'' dt_nocode = ''- - Beta - Call client''"
    using digest_groups [OF m, of "''Beta''"] by (simp add: dt_nocode_def)
  have b: "digest_line ''Alpha'' dt_alpha = ''TSK-A-1 - Alpha - -''"
    by (simp add: digest_line_def or_dash_def dt_alpha_def)
  have v: "digest_body ?ts
       = [''Alpha'', ''TSK-A-1 - Alpha - -'', [],
          ''Beta'', ''TSK-B-2 - Beta - Write docs'', ''- - Beta - Call client'', [],
          ''No Project'', ''- - No Project - -'', []]"
    by (simp add: digest_body_def group_tasks_def setdefault_append_def dict_get_def
          dict_keys_def group_name_def digest_group_def digest_line_def or_dash_def
          dt_beta_def dt_none_def dt_alpha_def dt_nocode_def)
  show ?thesis
    using m g a b v by simp
qed

section \<open>What a ticket does to the remote system\<close>

text \<open>
  Every block but the write of line 294 leaves the remote state and the list of write
  calls as they are.
\<close>

lemma writes_append: "writes (xs @ ys) = writes xs @ writes ys"
  by (induction xs rule: writes.induct) simp_all

lemma writes_map_Print: "writes (map (Print \<circ> f) xs) = []"
  by (induction xs) simp_all

lemma same_remote_refl: "same_remote w w"
  by (simp add: same_remote_def)

lemma same_remote_trans: "same_remote a b \<Longrightarrow> same_remote b c \<Longrightarrow> same_remote a c"
  by (simp add: same_remote_def)

lemma same_remote_Print: "same_remote w (emit (Print s) w)"
  by (simp add: same_remote_def emit_def writes_append)

lemma same_remote_PrintTasks: "same_remote w (emit (PrintTasks ts) w)"
  by (simp add: same_remote_def emit_def writes_append)

lemma same_remote_Prompt: "same_remote w (emit (Prompt s) w)"
  by (simp add: same_remote_def emit_def writes_append)

lemma same_remote_input: "same_remote w (step_world (input p w))"
  by (simp add: input_def Let_def step_world_def same_remote_def emit_def writes_append
           split: list.splits)

lemma same_remote_select_task: "same_remote w (step_world (select_task tasks w))"
proof -
  let ?w1 = "emit_all (Print ''Multiple tasks found:'' # map (Print \<circ> multi_line) (enumerate1 tasks)) w"
  have a: "same_remote w ?w1"
    by (simp add: same_remote_def emit_all_def writes_append writes_map_Print)
  have b: "same_remote ?w1 (step_world (input ''Select task number: '' ?w1))"
    by (rule same_remote_input)
  have c: "same_remote w (step_world (input ''Select task number: '' ?w1))"
    using a b by (rule same_remote_trans)
  show ?thesis
  proof (cases tasks)
    case Nil
    then show ?thesis by (simp add: select_task_def step_world_def same_remote_Print)
  next
    case (Cons t ts)
    show ?thesis
    proof (cases ts)
      case Nil
      with Cons show ?thesis by (simp add: select_task_def step_world_def same_remote_refl)
    next
      case (Cons t' ts')
      with \<open>tasks = t # ts\<close> c show ?thesis
        by (auto simp: select_task_def Let_def step_world_def
                 intro: same_remote_trans [OF _ same_remote_Print]
                 split: step.splits sum.splits)
    qed
  qed
qed

lemma same_remote_lookup_task: "same_remote w (step_world (lookup_task gw code w))"
proof -
  let ?w1 = "emit (Print (CHR 0x0A # ''=== '' @ code @ '' ==='')) w"
  let ?w2 = "emit (PrintTasks (tasks_by_code gw (remote ?w1) code)) ?w1"
  have "same_remote w ?w2"
    by (rule same_remote_trans [OF same_remote_Print same_remote_PrintTasks])
  then show ?thesis
    unfolding lookup_task_def Let_def
    by (rule same_remote_trans [OF _ same_remote_select_task])
qed

lemma same_remote_preferred: "same_remote w (step_world (preferred_ids_of gw pm pid pn w))"
  by (simp add: preferred_ids_of_def Let_def step_world_def same_remote_refl same_remote_Print
           split: option.splits)

lemma same_remote_present: "same_remote w (present task pn cs w)"
  by (simp add: present_def same_remote_def emit_all_def writes_append writes_map_Print)

lemma same_remote_decide: "same_remote w (step_world (decide cs w))"
proof (cases cs)
  case Nil
  then show ?thesis by (simp add: decide_def step_world_def same_remote_refl)
next
  case (Cons c cs')
  let ?p = "''Assign to '' @ c_name c @ ''? [y/N] ''"
  let ?q = "''Enter candidate number to assign (or blank to skip): ''"
  have a: "same_remote w (step_world (input ?p w))"
    by (rule same_remote_input)
  have b: "same_remote w1 (step_world (input ?q w1))" for w1 :: "'a world"
    by (rule same_remote_input)
  show ?thesis
  proof (cases "input ?p w")
    case (Crash e w1)
    with Cons a show ?thesis by (simp add: decide_def step_world_def)
  next
    case (Continue w1)
    with Cons a show ?thesis by (simp add: decide_def step_world_def)
  next
    case (Next yn w1)
    with a have a1: "same_remote w w1" by (simp add: step_world_def)
    show ?thesis
    proof (cases "input ?q w1")
      case (Crash e w2)
      with b [of w1] a1 Cons Next show ?thesis
        by (auto simp: decide_def step_world_def intro: same_remote_trans)
    next
      case (Continue w2)
      with b [of w1] a1 Cons Next show ?thesis
        by (auto simp: decide_def step_world_def intro: same_remote_trans)
    next
      case Next2: (Next l w2)
      with b [of w1] a1 have a2: "same_remote w w2"
        by (auto simp: step_world_def intro: same_remote_trans)
      have a3: "same_remote w (emit (Print s) w2)" for s
        by (rule same_remote_trans [OF a2 same_remote_Print])
      from Cons Next Next2 a1 a2 a3 show ?thesis
        by (auto simp: decide_def step_world_def Let_def split: sum.splits)
    qed
  qed
qed

lemma same_remote_commit_dry: "same_remote w (commit gw True task c w)"
  by (simp add: commit_def same_remote_Print)

lemma same_remote_assign_from_dry:
  "same_remote w (world_after (assign_from gw cfg True task pn counts recent ids w))"
proof (cases "ids = []")
  case True
  then show ?thesis by (simp add: assign_from_def world_after_def same_remote_Print)
next
  case False
  let ?cs = "rank (map (enrich (developer_roles cfg) counts recent) (read_users gw (remote w) ids))"
  let ?w1 = "present task pn ?cs w"
  have a: "same_remote w (step_world (decide ?cs ?w1))"
    by (rule same_remote_trans [OF same_remote_present same_remote_decide])
  show ?thesis
  proof (cases "decide ?cs ?w1")
    case (Crash e w2)
    with a False show ?thesis by (simp add: assign_from_def Let_def world_after_def step_world_def)
  next
    case (Continue w2)
    with a False show ?thesis by (simp add: assign_from_def Let_def world_after_def step_world_def)
  next
    case (Next c w2)
    with a have "same_remote w (commit gw True task c w2)"
      by (auto simp: step_world_def intro: same_remote_trans [OF _ same_remote_commit_dry])
    with Next False show ?thesis by (simp add: assign_from_def Let_def world_after_def)
  qed
qed

lemma same_remote_assign_task_dry:
  "same_remote w (world_after (assign_task gw cfg parse True task w))"
proof (cases "t_project task")
  case None
  then show ?thesis by (simp add: assign_task_def world_after_def same_remote_Print)
next
  case (Some pr)
  obtain pid pn where pr: "pr = (pid, pn)" by (cases pr)
  show ?thesis
  proof (cases "resolve_open_stages gw (open_stage_names cfg) (remote w)")
    case None
    with Some pr show ?thesis by (simp add: assign_task_def world_after_def same_remote_Print)
  next
    case sids: (Some sids)
    show ?thesis
    proof (cases "cutoff_of (clock w) (recent_days cfg)")
      case (Inl e)
      with Some pr sids show ?thesis
        by (simp add: assign_task_def world_after_def same_remote_refl)
    next
      case (Inr cutoff)
      obtain counts recent where ag:
        "aggregate parse cutoff (open_tasks_of gw (remote w) pid sids) = (counts, recent)"
        by (cases "aggregate parse cutoff (open_tasks_of gw (remote w) pid sids)")
      have p: "same_remote w (step_world (preferred_ids_of gw (preferred_developers cfg) pid pn w))"
        by (rule same_remote_preferred)
      show ?thesis
      proof (cases "preferred_ids_of gw (preferred_developers cfg) pid pn w")
        case (Crash e w1)
        with Some pr sids Inr ag p show ?thesis
          by (simp add: assign_task_def world_after_def step_world_def)
      next
        case (Continue w1)
        with Some pr sids Inr ag p show ?thesis
          by (simp add: assign_task_def world_after_def step_world_def)
      next
        case (Next pref w1)
        with p have "same_remote w w1" by (simp add: step_world_def)
        then have "same_remote w (world_after (assign_from gw cfg True task pn counts recent
                      (candidate_ids_of pref counts) w1))"
          by (rule same_remote_trans [OF _ same_remote_assign_from_dry])
        with Some pr sids Inr ag Next show ?thesis
          by (simp add: assign_task_def)
      qed
    qed
  qed
qed

lemma same_remote_process_code_dry:
  "same_remote w (world_after (process_code gw cfg parse True code w))"
proof -
  have l: "same_remote w (step_world (lookup_task gw code w))"
    by (rule same_remote_lookup_task)
  show ?thesis
  proof (cases "lookup_task gw code w")
    case (Crash e w3)
    with l show ?thesis by (simp add: process_code_def world_after_def step_world_def)
  next
    case (Continue w3)
    with l show ?thesis by (simp add: process_code_def world_after_def step_world_def)
  next
    case (Next task w3)
    with l have "same_remote w (world_after (assign_task gw cfg parse True task w3))"
      by (auto simp: step_world_def intro: same_remote_trans [OF _ same_remote_assign_task_dry])
    with Next show ?thesis by (simp add: process_code_def)
  qed
qed

lemma same_remote_run_codes_dry:
  "same_remote w (world_after (run_codes gw cfg parse True codes w))"
proof (induction codes arbitrary: w)
  case Nil
  then show ?case by (simp add: world_after_def same_remote_refl)
next
  case (Cons code codes)
  have p: "same_remote w (world_after (process_code gw cfg parse True code w))"
    by (rule same_remote_process_code_dry)
  show ?case
  proof (cases "process_code gw cfg parse True code w")
    case (Inl ew)
    with p show ?thesis by (simp add: world_after_def)
  next
    case (Inr w1)
    with p have "same_remote w w1" by (simp add: world_after_def)
    then have "same_remote w (world_after (run_codes gw cfg parse True codes w1))"
      by (rule same_remote_trans [OF _ Cons.IH])
    with Inr show ?thesis by simp
  qed
qed

text \<open>
  Where the blocks before line 246 fall through, the rest of the loop body runs on the
  two dicts and the candidate ids they produced.
\<close>

lemma assign_task_reach:
  assumes "t_project task = Some (pid, pn)"
    and "resolve_open_stages gw (open_stage_names cfg) (remote w) = Some sids"
    and "cutoff_of (clock w) (recent_days cfg) = Inr cutoff"
    and "preferred_ids_of gw (preferred_developers cfg) pid pn w = Next pref w1"
  shows "assign_task gw cfg parse dry task w
           = assign_from gw cfg dry task pn
               (fst (aggregate parse cutoff (open_tasks_of gw (remote w) pid sids)))
               (snd (aggregate parse cutoff (open_tasks_of gw (remote w) pid sids)))
               (candidate_ids_of pref
                  (fst (aggregate parse cutoff (open_tasks_of gw (remote w) pid sids)))) w1"
  using assms by (simp add: assign_task_def split: prod.splits)

lemma assign_from_quiet:
  assumes "ids = [] \<or> read_users gw (remote w) ids = []"
  shows "same_remote w (world_after (assign_from gw cfg dry task pn counts recent ids w))"
proof (cases "ids = []")
  case True
  then show ?thesis by (simp add: assign_from_def world_after_def same_remote_Print)
next
  case False
  with assms have "read_users gw (remote w) ids = []" by simp
  with False show ?thesis
    by (simp add: assign_from_def rank_def decide_def world_after_def same_remote_present)
qed

text \<open>Running the model on the in-memory gateway.\<close>

lemmas gateway_defs = store_gateway_def store_assign_def store1_def config1_def ticket1_def
  dev_ann_def dev_bob_def open_of_def parse1_def world_of_def store_nostage_def
  store_idle_def cand_def

lemmas block_defs = lookup_task_def select_task_def resolve_open_stages_def cutoff_of_def
  utc_now_def aggregate_def aggregate_step_def recent_try_def datetime_strptime_def dt_ge_def
  preferred_ids_of_def pick_project_key_def resolve_users_def first_hit_def candidate_ids_of_def
  enrich_def resolve_role_def rank_def rank_key_def present_def candidate_line_def
  enumerate1_def decide_def input_def commit_def assign_from_def assign_task_def
  process_code_def emit_def emit_all_def dict_get_def dict_mem_def dict_keys_def
  dict_values_def ref_name_def index_by_text_def py_int_def py_index_def strip_def lower_def
  is_space_def is_digit_def str_int_def world_after_def less_eq_prod_def str_nat.simps

section \<open>Open stages (lines 187 to 208)\<close>

text \<open>
  C5. For a ticket that was found and has a project: when the list of configured names
  is empty or the query for them returns nothing, the open stages are the ids of the
  stages that are not folded; when there is none of these either, the loop body prints
  the reason and ends for this ticket, the remote state and the write calls are as
  before, and the run goes on with the codes that are left.
\<close>

theorem no_open_stages_skip:
  assumes "lookup_task gw code w = Next task w3"
    and "t_project task = Some (pid, pn)"
    and "open_stage_names cfg = [] \<or> stages_by_names gw (remote w3) (open_stage_names cfg) = []"
  shows "(stages_unfolded gw (remote w3) \<noteq> [] \<longrightarrow>
            resolve_open_stages gw (open_stage_names cfg) (remote w3)
              = Some (map s_id (stages_unfolded gw (remote w3))))
       \<and> (stages_unfolded gw (remote w3) = [] \<longrightarrow>
            resolve_open_stages gw (open_stage_names cfg) (remote w3) = None
            \<and> process_code gw cfg parse dry code w
                = Inr (emit (Print ''No open stages found; skipping'') w3)
            \<and> remote (emit (Print ''No open stages found; skipping'') w3) = remote w
            \<and> writes (trace (emit (Print ''No open stages found; skipping'') w3)) = writes (trace w)
            \<and> run_codes gw cfg parse dry (code # codes) w
                = run_codes gw cfg parse dry codes (emit (Print ''No open stages found; skipping'') w3))"
proof -
  have r: "resolve_open_stages gw (open_stage_names cfg) (remote w3)
             = (if stages_unfolded gw (remote w3) = [] then None
                else Some (map s_id (stages_unfolded gw (remote w3))))"
    using assms(3) by (auto simp: resolve_open_stages_def Let_def)
  have s: "same_remote w (emit (Print ''No open stages found; skipping'') w3)"
    using same_remote_lookup_task [of w gw code] assms(1)
    by (auto simp: step_world_def intro: same_remote_trans same_remote_Print)
  show ?thesis
    using r s assms(1,2)
    by (auto simp: process_code_def assign_task_def same_remote_def)
qed

theorem no_open_stages_skip_witness:
  "lookup_task store_gateway ''TSK-AB-1'' (world_of store_nostage [] 0)
     = Next ticket1 \<lparr>remote = store_nostage, console = [],
                     trace = [Print (CHR 0x0A # ''=== TSK-AB-1 ===''), PrintTasks [ticket1]],
                     clock = 0\<rparr>
   \<and> t_project ticket1 = Some (42, ''Alpha'')
   \<and> stages_by_names store_gateway store_nostage (open_stage_names config1) = []
   \<and> stages_unfolded store_gateway store_nostage = []
   \<and> process_code store_gateway config1 parse1 False ''TSK-AB-1'' (world_of store_nostage [] 0)
     = Inr \<lparr>remote = store_nostage, console = [],
            trace = [Print (CHR 0x0A # ''=== TSK-AB-1 ===''), PrintTasks [ticket1],
                     Print ''No open stages found; skipping''],
            clock = 0\<rparr>
   \<and> lookup_task store_gateway ''TSK-AB-1'' (world_of store1 [] 0)
     = Next ticket1 \<lparr>remote = store1, console = [],
                     trace = [Print (CHR 0x0A # ''=== TSK-AB-1 ===''), PrintTasks [ticket1]],
                     clock = 0\<rparr>
   \<and> stages_by_names store_gateway store1 [''Backlog''] = []
   \<and> map s_id (stages_unfolded store_gateway store1) = [5]
   \<and> resolve_open_stages store_gateway [''Backlog''] store1 = Some [5]"
proof -
  let ?w3 = "\<lparr>remote = store_nostage, console = [],
               trace = [Print (CHR 0x0A # ''=== TSK-AB-1 ===''), PrintTasks [ticket1]],
               clock = 0\<rparr>"
  let ?v3 = "\<lparr>remote = store1, console = [],
               trace = [Print (CHR 0x0A # ''=== TSK-AB-1 ===''), PrintTasks [ticket1]],
               clock = 0\<rparr>"
  let ?cfg = "config1\<lparr>open_stage_names := [''Backlog'']\<rparr>"
  have l: "lookup_task store_gateway ''TSK-AB-1'' (world_of store_nostage [] 0) = Next ticket1 ?w3"
    by (simp add: gateway_defs block_defs)
  have p: "t_project ticket1 = Some (42, ''Alpha'')"
    by (simp add: ticket1_def)
  have n: "stages_by_names store_gateway store_nostage (open_stage_names config1) = []"
    by (simp add: gateway_defs)
  have u: "stages_unfolded store_gateway store_nostage = []"
    by (simp add: gateway_defs)
  have h: "open_stage_names config1 = []
           \<or> stages_by_names store_gateway (remote ?w3) (open_stage_names config1) = []"
    using n by simp
  have l': "lookup_task store_gateway ''TSK-AB-1'' (world_of store1 [] 0) = Next ticket1 ?v3"
    by (simp add: gateway_defs block_defs)
  have n': "stages_by_names store_gateway store1 [''Backlog''] = []"
    by (simp add: gateway_defs)
  have u': "map s_id (stages_unfolded store_gateway store1) = [5]"
    by (simp add: gateway_defs)
  have h': "open_stage_names ?cfg = []
            \<or> stages_by_names store_gateway (remote ?v3) (open_stage_names ?cfg) = []"
    using n' by simp
  have a: "process_code store_gateway config1 parse1 False ''TSK-AB-1'' (world_of store_nostage [] 0)
             = Inr (emit (Print ''No open stages found; skipping'') ?w3)"
    using u no_open_stages_skip [OF l p h, of parse1 False "[]"] by simp
  have b: "resolve_open_stages store_gateway [''Backlog''] store1 = Some [5]"
    using u' no_open_stages_skip [OF l' p h', of parse1 False "[]"] by auto
  show ?thesis
    using l p n u a l' n' u' b by (simp add: emit_def)
qed

section \<open>No candidates (lines 246 to 250)\<close>

text \<open>
  C8. With an empty list of candidate ids the rest of the loop body prints
  \<open>No candidates found\<close> and ends for this ticket. A write call is added to the trace
  only when the list of candidate ids is not empty and the gateway returned a record for
  them. For a ticket that reaches line 247 with an empty list, the remote state and the
  write calls are as before the ticket, and the run goes on with the codes that are left.
\<close>

theorem no_candidates_no_write:
  "assign_from gw cfg dry task pn counts recent [] v = Inr (emit (Print ''No candidates found'') v)
   \<and> (writes (trace (world_after (assign_from gw cfg dry task pn counts recent ids v)))
         \<noteq> writes (trace v)
      \<longrightarrow> ids \<noteq> [] \<and> read_users gw (remote v) ids \<noteq> [])
   \<and> (lookup_task gw code w = Next task wl
       \<and> t_project task = Some (pid, pn)
       \<and> resolve_open_stages gw (open_stage_names cfg) (remote wl) = Some sids
       \<and> cutoff_of (clock wl) (recent_days cfg) = Inr cutoff
       \<and> preferred_ids_of gw (preferred_developers cfg) pid pn wl = Next pref wp
       \<and> candidate_ids_of pref
            (fst (aggregate parse cutoff (open_tasks_of gw (remote wl) pid sids))) = []
      \<longrightarrow> process_code gw cfg parse dry code w = Inr (emit (Print ''No candidates found'') wp)
          \<and> remote (emit (Print ''No candidates found'') wp) = remote w
          \<and> writes (trace (emit (Print ''No candidates found'') wp)) = writes (trace w)
          \<and> run_codes gw cfg parse dry (code # codes) w
              = run_codes gw cfg parse dry codes (emit (Print ''No candidates found'') wp))"
proof -
  have e: "assign_from gw cfg dry task pn counts recent [] v
             = Inr (emit (Print ''No candidates found'') v)"
    by (simp add: assign_from_def)
  have q: "writes (trace (world_after (assign_from gw cfg dry task pn counts recent ids v)))
             \<noteq> writes (trace v)
          \<longrightarrow> ids \<noteq> [] \<and> read_users gw (remote v) ids \<noteq> []"
    using assign_from_quiet [of ids gw v cfg dry task pn counts recent]
    by (auto simp: same_remote_def)
  have r: "process_code gw cfg parse dry code w = Inr (emit (Print ''No candidates found'') wp)
          \<and> remote (emit (Print ''No candidates found'') wp) = remote w
          \<and> writes (trace (emit (Print ''No candidates found'') wp)) = writes (trace w)
          \<and> run_codes gw cfg parse dry (code # codes) w
              = run_codes gw cfg parse dry codes (emit (Print ''No candidates found'') wp)"
    if l: "lookup_task gw code w = Next task wl"
      and p: "t_project task = Some (pid, pn)"
      and s: "resolve_open_stages gw (open_stage_names cfg) (remote wl) = Some sids"
      and c: "cutoff_of (clock wl) (recent_days cfg) = Inr cutoff"
      and f: "preferred_ids_of gw (preferred_developers cfg) pid pn wl = Next pref wp"
      and n: "candidate_ids_of pref
                (fst (aggregate parse cutoff (open_tasks_of gw (remote wl) pid sids))) = []"
  proof -
    have "assign_task gw cfg parse dry task wl = Inr (emit (Print ''No candidates found'') wp)"
      using assign_task_reach [OF p s c f, of parse dry] n by (simp add: assign_from_def)
    then have pc: "process_code gw cfg parse dry code w
                     = Inr (emit (Print ''No candidates found'') wp)"
      using l by (simp add: process_code_def)
    have "same_remote w wl"
      using same_remote_lookup_task [of w gw code] l by (simp add: step_world_def)
    moreover have "same_remote wl wp"
      using same_remote_preferred [of wl gw "preferred_developers cfg" pid pn] f
      by (simp add: step_world_def)
    ultimately have "same_remote w (emit (Print ''No candidates found'') wp)"
      by (blast intro: same_remote_trans same_remote_Print)
    with pc show ?thesis by (simp add: same_remote_def)
  qed
  show ?thesis
    using e q r by blast
qed

theorem no_candidates_no_write_witness:
  "lookup_task store_gateway ''TSK-AB-1'' (world_of store_idle [] 0)
     = Next ticket1 \<lparr>remote = store_idle, console = [],
                     trace = [Print (CHR 0x0A # ''=== TSK-AB-1 ===''), PrintTasks [ticket1]],
                     clock = 0\<rparr>
   \<and> t_project ticket1 = Some (42, ''Alpha'')
   \<and> resolve_open_stages store_gateway (open_stage_names config1) store_idle = Some [5]
   \<and> cutoff_of 0 (recent_days config1) = Inr \<lparr>wall = - 604800, utcoffset = Some 0\<rparr>
   \<and> open_tasks_of store_gateway store_idle 42 [5] = []
   \<and> candidate_ids_of None (fst (aggregate parse1 \<lparr>wall = - 604800, utcoffset = Some 0\<rparr> [])) = []
   \<and> process_code store_gateway config1 parse1 False ''TSK-AB-1'' (world_of store_idle [] 0)
     = Inr \<lparr>remote = store_idle, console = [],
            trace = [Print (CHR 0x0A # ''=== TSK-AB-1 ===''), PrintTasks [ticket1],
                     Print ''No candidates found''],
            clock = 0\<rparr>"
proof -
  let ?w3 = "\<lparr>remote = store_idle, console = [],
               trace = [Print (CHR 0x0A # ''=== TSK-AB-1 ===''), PrintTasks [ticket1]],
               clock = 0\<rparr>"
  have l: "lookup_task store_gateway ''TSK-AB-1'' (world_of store_idle [] 0) = Next ticket1 ?w3"
    by (simp add: gateway_defs block_defs)
  have p: "t_project ticket1 = Some (42, ''Alpha'')"
    by (simp add: ticket1_def)
  have s: "resolve_open_stages store_gateway (open_stage_names config1) store_idle = Some [5]"
    by (simp add: gateway_defs block_defs)
  have c: "cutoff_of 0 (recent_days config1) = Inr \<lparr>wall = - 604800, utcoffset = Some 0\<rparr>"
    by (simp add: gateway_defs block_defs)
  have f: "preferred_ids_of store_gateway (preferred_developers config1) 42 ''Alpha'' ?w3
             = Next None ?w3"
    by (simp add: gateway_defs block_defs)
  have t: "open_tasks_of store_gateway store_idle 42 [5] = []"
    by (simp add: gateway_defs)
  have n: "candidate_ids_of None (fst (aggregate parse1 \<lparr>wall = - 604800, utcoffset = Some 0\<rparr> [])) = []"
    by (simp add: block_defs)
  show ?thesis
    using l p s c f t n
      no_candidates_no_write [where gw = store_gateway and cfg = config1 and dry = False
        and code = "''TSK-AB-1''" and w = "world_of store_idle [] 0" and task = ticket1
        and wl = ?w3 and pid = 42 and pn = "''Alpha''" and sids = "[5]"
        and cutoff = "\<lparr>wall = - 604800, utcoffset = Some 0\<rparr>" and pref = None
        and wp = ?w3 and parse = parse1 and codes = "[]"]
    by (simp add: emit_def)
qed

section \<open>Dry run (lines 290 to 292)\<close>

text \<open>
  C9. In dry-run mode no ticket and no run changes the remote state or adds a write call,
  however it ends. Where the decision gives a candidate, the loop body ends with the line
  \<open>Dry-run: would assign task\<close>, the id of the ticket, \<open>to\<close> and the display name of
  that candidate.
\<close>

theorem dry_run_no_write:
  "same_remote ws (world_after (run_codes gw cfg parse True codes ws))
   \<and> same_remote ws (world_after (process_code gw cfg parse True code ws))
   \<and> (ids \<noteq> []
       \<and> decide (rank (map (enrich (developer_roles cfg) counts recent) (read_users gw (remote w) ids)))
            (present task pn
               (rank (map (enrich (developer_roles cfg) counts recent) (read_users gw (remote w) ids))) w)
          = Next top_c wd
      \<longrightarrow> assign_from gw cfg True task pn counts recent ids w
            = Inr (emit (Print (''Dry-run: would assign task '' @ str_int (t_id task)
                                @ '' to '' @ c_name top_c)) wd)
          \<and> remote wd = remote w
          \<and> writes (trace (emit (Print (''Dry-run: would assign task '' @ str_int (t_id task)
                                @ '' to '' @ c_name top_c)) wd)) = writes (trace w))"
proof -
  have r: "assign_from gw cfg True task pn counts recent ids w
            = Inr (emit (Print (''Dry-run: would assign task '' @ str_int (t_id task)
                                @ '' to '' @ c_name top_c)) wd)
          \<and> remote wd = remote w
          \<and> writes (trace (emit (Print (''Dry-run: would assign task '' @ str_int (t_id task)
                                @ '' to '' @ c_name top_c)) wd)) = writes (trace w)"
    if i: "ids \<noteq> []"
      and d: "decide (rank (map (enrich (developer_roles cfg) counts recent) (read_users gw (remote w) ids)))
            (present task pn
               (rank (map (enrich (developer_roles cfg) counts recent) (read_users gw (remote w) ids))) w)
          = Next top_c wd"
  proof -
    have a: "assign_from gw cfg True task pn counts recent ids w
           = Inr (emit (Print (''Dry-run: would assign task '' @ str_int (t_id task)
                               @ '' to '' @ c_name top_c)) wd)"
      using i d by (simp add: assign_from_def Let_def commit_def)
    have "same_remote w (world_after (assign_from gw cfg True task pn counts recent ids w))"
      by (rule same_remote_assign_from_dry)
    with a show ?thesis
      by (simp add: world_after_def same_remote_def emit_def)
  qed
  show ?thesis
    using r same_remote_process_code_dry [of ws gw cfg parse code]
          same_remote_run_codes_dry [of ws gw cfg parse codes]
    by blast
qed

theorem dry_run_no_write_witness:
  "decide [bob_c, ann_c] \<lparr>remote = store1, console = [''y''], trace = listing1, clock = 0\<rparr>
     = Next bob_c \<lparr>remote = store1, console = [],
                   trace = listing1 @ [Prompt ''Assign to Bob? [y/N] ''], clock = 0\<rparr>
   \<and> assign_from store_gateway config1 True ticket1 ''Alpha'' [(1, 1), (2, 2)] [] [1, 2]
        \<lparr>remote = store1, console = [''y''], trace = take 2 listing1, clock = 0\<rparr>
     = Inr \<lparr>remote = store1, console = [],
            trace = listing1 @ [Prompt ''Assign to Bob? [y/N] '',
                                Print ''Dry-run: would assign task 100 to Bob''],
            clock = 0\<rparr>
   \<and> run_codes store_gateway config1 parse1 True [''TSK-AB-1''] (world_of store1 [''y''] 0)
     = Inr \<lparr>remote = store1, console = [],
            trace = listing1 @ [Prompt ''Assign to Bob? [y/N] '',
                                Print ''Dry-run: would assign task 100 to Bob''],
            clock = 0\<rparr>"
proof -
  let ?w = "\<lparr>remote = store1, console = [''y''], trace = take 2 listing1, clock = 0\<rparr>"
  let ?wd = "\<lparr>remote = store1, console = [],
               trace = listing1 @ [Prompt ''Assign to Bob? [y/N] ''], clock = 0\<rparr>"
  have c: "rank (map (enrich (developer_roles config1) [(1, 1), (2, 2)] [])
                   (read_users store_gateway (remote ?w) [1, 2])) = [bob_c, ann_c]"
    by (simp add: gateway_defs block_defs bob_c_def ann_c_def)
  have p: "present ticket1 ''Alpha'' [bob_c, ann_c] ?w
             = \<lparr>remote = store1, console = [''y''], trace = listing1, clock = 0\<rparr>"
    by (simp add: gateway_defs block_defs bob_c_def ann_c_def listing1_def)
  have d: "decide [bob_c, ann_c] \<lparr>remote = store1, console = [''y''], trace = listing1, clock = 0\<rparr>
             = Next bob_c ?wd"
    by (simp add: block_defs bob_c_def)
  have r: "run_codes store_gateway config1 parse1 True [''TSK-AB-1''] (world_of store1 [''y''] 0)
     = Inr \<lparr>remote = store1, console = [],
            trace = listing1 @ [Prompt ''Assign to Bob? [y/N] '',
                                Print ''Dry-run: would assign task 100 to Bob''],
            clock = 0\<rparr>"
    by (simp add: gateway_defs block_defs listing1_def)
  have i: "[1, 2] \<noteq> ([] :: int list)"
    by simp
  show ?thesis
    using c p d r i
      dry_run_no_write [where ids = "[1, 2]" and cfg = config1 and counts = "[(1, 1), (2, 2)]"
        and recent = "[]" and gw = store_gateway and w = ?w and task = ticket1
        and pn = "''Alpha''" and top_c = bob_c and wd = ?wd]
    by (simp add: emit_def ticket1_def bob_c_def str_int_def str_nat.simps)
qed

section \<open>The selection by number (lines 280 to 288)\<close>

text \<open>
  C2. The claim asks that every index outside 1 to the number of candidates ends the
  ticket with a message and without a write. The code does so for \<open>9\<close> against two
  candidates, but not for \<open>0\<close>: \<^verbatim>\<open>candidates[int(sel) - 1]\<close> is then
  \<^verbatim>\<open>candidates[-1]\<close>, the last candidate, no exception is raised, and the ticket is
  written to that candidate. Here Ann is ranked second, the operator declines Bob and
  enters \<open>0\<close>: the run sends the write of ticket 100 to user 1, prints
  \<open>Assigned to Ann\<close> and goes on to the next code.
\<close>

theorem zero_index_selects_last:
  "index_by_text [bob_c, ann_c] ''9'' = Inl IndexError
   \<and> index_by_text [bob_c, ann_c] ''0'' = Inr ann_c
   \<and> decide [bob_c, ann_c] \<lparr>remote = store1, console = [''n'', ''0''], trace = [], clock = 0\<rparr>
       = Next ann_c \<lparr>remote = store1, console = [],
                     trace = [Prompt ''Assign to Bob? [y/N] '',
                              Prompt ''Enter candidate number to assign (or blank to skip): ''],
                     clock = 0\<rparr>
   \<and> trace (world_after (run_codes store_gateway config1 parse1 False [''TSK-AB-1'', ''TSK-X-1'']
                            (world_of store1 [''n'', ''0''] 0)))
       = listing1 @ [Prompt ''Assign to Bob? [y/N] '',
                     Prompt ''Enter candidate number to assign (or blank to skip): '',
                     Write 100 1, Print ''Assigned to Ann'',
                     Print (CHR 0x0A # ''=== TSK-X-1 ===''), PrintTasks [], Print ''No task found'']
   \<and> tasks_by_code store_gateway
         (remote (world_after (run_codes store_gateway config1 parse1 False [''TSK-AB-1'', ''TSK-X-1'']
                                 (world_of store1 [''n'', ''0''] 0)))) ''TSK-AB-1''
       = [ticket1\<lparr>t_user := Some (1, ''Ann'')\<rparr>]"
  by (simp add: gateway_defs block_defs bob_c_def ann_c_def listing1_def)

section \<open>Preferred developers (lines 73 to 93 and 236 to 250)\<close>

lemma dict_set_present: "map_of d k = Some v \<Longrightarrow> dict_set d k v = d"
  by (induction d) (auto split: if_splits)

lemma dict_set_absent: "k \<notin> fst ` set d \<Longrightarrow> dict_set d k v = d @ [(k, v)]"
  by (induction d) auto

lemma dict_set_graph:
  assumes "\<And>k' v'. (k', v') \<in> set d \<Longrightarrow> v' = f k'"
  shows "set (dict_set d k (f k)) = insert (k, f k) (set d)"
proof (cases "k \<in> fst ` set d")
  case True
  then obtain v where kv: "(k, v) \<in> set d" by auto
  then have v: "v = f k" using assms by blast
  obtain v' where m: "map_of d k = Some v'"
    using True by (metis domD dom_map_of_conv_image_fst)
  then have "(k, v') \<in> set d" by (rule map_of_SomeD)
  then have "v' = f k" using assms by blast
  with m have "dict_set d k (f k) = d" by (simp add: dict_set_present)
  with kv v show ?thesis by auto
next
  case False
  then show ?thesis by (simp add: dict_set_absent)
qed

lemma foldl_dict_set_graph:
  assumes "\<And>k' v'. (k', v') \<in> set d \<Longrightarrow> v' = f k'"
  shows "set (foldl (\<lambda>r k. dict_set r k (f k)) d ks) = set d \<union> (\<lambda>k. (k, f k)) ` set ks"
  using assms
proof (induction ks arbitrary: d)
  case Nil
  then show ?case by simp
next
  case (Cons k ks)
  have g: "set (dict_set d k (f k)) = insert (k, f k) (set d)"
    using Cons.prems by (rule dict_set_graph)
  have "set (foldl (\<lambda>r k. dict_set r k (f k)) (dict_set d k (f k)) ks)
          = set (dict_set d k (f k)) \<union> (\<lambda>k. (k, f k)) ` set ks"
  proof (rule Cons.IH)
    fix k' v'
    assume "(k', v') \<in> set (dict_set d k (f k))"
    with g Cons.prems show "v' = f k'" by auto
  qed
  with g show ?case by auto
qed

lemma set_resolve_users:
  "set (resolve_users gw db idents) = (\<lambda>k. (k, first_hit gw db k)) ` set idents"
  using foldl_dict_set_graph [of "[]" "first_hit gw db" idents]
  by (simp add: resolve_users_def)

lemma set_map_filter_id: "set (List.map_filter id xs) = {x. Some x \<in> set xs}"
  by (induction xs) (auto split: option.splits)

lemma set_preferred_ids:
  "set (map u_id (List.map_filter id (dict_values (resolve_users gw db idents))))
     = {u_id x |x i. i \<in> set idents \<and> first_hit gw db i = Some x}"
proof -
  have "Some x \<in> set (dict_values (resolve_users gw db idents))
          \<longleftrightarrow> (\<exists>i. i \<in> set idents \<and> first_hit gw db i = Some x)" for x
    by (auto simp: dict_values_def set_resolve_users image_iff) (metis)
  then have "set (List.map_filter id (dict_values (resolve_users gw db idents)))
               = {x. \<exists>i. i \<in> set idents \<and> first_hit gw db i = Some x}"
    by (simp add: set_map_filter_id)
  then show ?thesis
    by auto
qed

lemma c_id_enrich: "c_id (enrich rm counts recent x) = u_id x"
  by (simp add: enrich_def)

lemma c_count_enrich:
  "c_count (enrich rm counts recent x) = (case map_of counts (u_id x) of None \<Rightarrow> 0 | Some n \<Rightarrow> n)"
  by (simp add: enrich_def dict_get_def)

lemma ranked_enriched:
  assumes "u_id ` set us = S"
  shows "c_id ` set (rank (map (enrich rm counts recent) us)) = S
       \<and> (\<forall>c \<in> set (rank (map (enrich rm counts recent) us)).
             c_count c = (case map_of counts (c_id c) of None \<Rightarrow> 0 | Some n \<Rightarrow> n))"
proof -
  have "c_id ` set (rank (map (enrich rm counts recent) us)) = u_id ` set us"
    by (simp add: set_rank image_image c_id_enrich)
  moreover have "\<forall>c \<in> set (rank (map (enrich rm counts recent) us)).
             c_count c = (case map_of counts (c_id c) of None \<Rightarrow> 0 | Some n \<Rightarrow> n)"
    by (auto simp: set_rank c_id_enrich c_count_enrich)
  ultimately show ?thesis
    using assms by simp
qed

text \<open>
  C3, as stated, fails: the policy has an entry for project Alpha, its only identifier
  resolves to no user, and the candidates are then the developers of the workload dict,
  Ann and Bob, who are not in the preference list.
\<close>

theorem preferred_fallback_counterexample:
  "pick_project_key [(''Alpha'', [''ghost''])] 42 ''Alpha'' = Some ''Alpha''
   \<and> preferred_ids_of store_gateway [(''Alpha'', [''ghost''])] 42 ''Alpha'' (world_of store1 [] 0)
       = Next (Some []) \<lparr>remote = store1, console = [],
                         trace = [Print ''Preferred devs not found: ghost''], clock = 0\<rparr>
   \<and> fst (aggregate parse1 (utc_now 0) (open_tasks_of store_gateway store1 42 [5])) = [(1, 1), (2, 2)]
   \<and> candidate_ids_of (Some []) [(1, 1), (2, 2)] = [1, 2]"
  by (simp add: gateway_defs block_defs List.map_filter_def)

text \<open>
  C3, amended. When \<open>pick_project_key\<close> gives a key that is not empty, the preferred
  ids are the ids of the users that the identifiers of its entry resolve to. When at least
  one identifier resolves, the candidate ids are these preferred ids whatever the workload
  dict holds. When no identifier resolves, the candidate ids are the keys of the workload
  dict. When the gateway returns records of exactly the preferred ids, the ranked list
  holds exactly these ids, each with its count of the workload dict, 0 when it has no
  entry there.
\<close>

theorem preferred_candidates:
  assumes "pick_project_key pm pid pn = Some k" and "k \<noteq> []"
    and "map_of pm k = Some idents"
  shows "\<exists>ids wp. preferred_ids_of gw pm pid pn w = Next (Some ids) wp
           \<and> remote wp = remote w
           \<and> writes (trace wp) = writes (trace w)
           \<and> set ids = {u_id x |x i. i \<in> set idents \<and> first_hit gw (remote w) i = Some x}
           \<and> (ident \<in> set idents \<and> first_hit gw (remote w) ident = Some u \<longrightarrow>
                 ids \<noteq> [] \<and> (\<forall>counts. candidate_ids_of (Some ids) counts = ids))
           \<and> ((\<forall>i \<in> set idents. first_hit gw (remote w) i = None) \<longrightarrow>
                 ids = [] \<and> (\<forall>counts. candidate_ids_of (Some ids) counts = dict_keys counts))
           \<and> (\<forall>rm counts recent.
                 u_id ` set (read_users gw (remote wp) ids) = set ids \<longrightarrow>
                 c_id ` set (rank (map (enrich rm counts recent) (read_users gw (remote wp) ids)))
                   = set ids
                 \<and> (\<forall>c \<in> set (rank (map (enrich rm counts recent)
                                         (read_users gw (remote wp) ids))).
                       c_count c = (case map_of counts (c_id c) of None \<Rightarrow> 0 | Some n \<Rightarrow> n)))"
proof -
  let ?resolved = "resolve_users gw (remote w) idents"
  let ?ids = "map u_id (List.map_filter id (dict_values ?resolved))"
  let ?missing = "map fst (filter (\<lambda>kv. snd kv = None) ?resolved)"
  let ?wp = "if ?missing \<noteq> []
             then emit (Print (''Preferred devs not found: '' @ join '', '' ?missing)) w else w"
  have p: "preferred_ids_of gw pm pid pn w = Next (Some ?ids) ?wp"
    using assms(1-3) by (simp add: preferred_ids_of_def Let_def)
  have r: "remote ?wp = remote w" "writes (trace ?wp) = writes (trace w)"
    using same_remote_Print [of w] by (simp_all add: same_remote_def)
  have s: "set ?ids = {u_id x |x i. i \<in> set idents \<and> first_hit gw (remote w) i = Some x}"
    by (rule set_preferred_ids)
  have c: "ident \<in> set idents \<and> first_hit gw (remote w) ident = Some u \<longrightarrow>
             ?ids \<noteq> [] \<and> (\<forall>counts. candidate_ids_of (Some ?ids) counts = ?ids)"
  proof
    assume h: "ident \<in> set idents \<and> first_hit gw (remote w) ident = Some u"
    have "u_id u \<in> set ?ids"
      unfolding s using h by blast
    then have "?ids \<noteq> []" by auto
    then show "?ids \<noteq> [] \<and> (\<forall>counts. candidate_ids_of (Some ?ids) counts = ?ids)"
      by (simp add: candidate_ids_of_def)
  qed
  have f: "(\<forall>i \<in> set idents. first_hit gw (remote w) i = None) \<longrightarrow>
             ?ids = [] \<and> (\<forall>counts. candidate_ids_of (Some ?ids) counts = dict_keys counts)"
  proof
    assume h: "\<forall>i \<in> set idents. first_hit gw (remote w) i = None"
    have "set ?ids = {}"
      unfolding s using h by auto
    then have "?ids = []" by (simp only: set_empty)
    then show "?ids = [] \<and> (\<forall>counts. candidate_ids_of (Some ?ids) counts = dict_keys counts)"
      by (simp add: candidate_ids_of_def)
  qed
  have e: "\<forall>rm counts recent.
             u_id ` set (read_users gw (remote ?wp) ?ids) = set ?ids \<longrightarrow>
             c_id ` set (rank (map (enrich rm counts recent) (read_users gw (remote ?wp) ?ids)))
               = set ?ids
             \<and> (\<forall>c \<in> set (rank (map (enrich rm counts recent)
                                     (read_users gw (remote ?wp) ?ids))).
                   c_count c = (case map_of counts (c_id c) of None \<Rightarrow> 0 | Some n \<Rightarrow> n))"
    by (intro allI impI) (rule ranked_enriched)
  show ?thesis
    by (intro exI conjI) (rule p r s c f e)+
qed

theorem preferred_candidates_witness:
  "pick_project_key [(''Alpha'', [''bob'', ''ghost''])] 42 ''Alpha'' = Some ''Alpha''
   \<and> first_hit store_gateway store1 ''bob'' = Some dev_bob
   \<and> preferred_ids_of store_gateway [(''Alpha'', [''bob'', ''ghost''])] 42 ''Alpha''
        (world_of store1 [] 0)
       = Next (Some [2]) \<lparr>remote = store1, console = [],
                          trace = [Print ''Preferred devs not found: ghost''], clock = 0\<rparr>
   \<and> candidate_ids_of (Some [2]) [(1, 1)] = [2]
   \<and> rank (map (enrich [] [(1, 1)] []) (read_users store_gateway store1 [2])) = [bob_idle]
   \<and> pick_project_key [(''default'', [''ghost''])] 42 ''Alpha'' = Some ''default''
   \<and> first_hit store_gateway store1 ''ghost'' = None
   \<and> preferred_ids_of store_gateway [(''default'', [''ghost''])] 42 ''Alpha''
        (world_of store1 [] 0)
       = Next (Some []) \<lparr>remote = store1, console = [],
                         trace = [Print ''Preferred devs not found: ghost''], clock = 0\<rparr>
   \<and> candidate_ids_of (Some []) [(2, 2), (1, 1)] = [2, 1]"
proof -
  have k: "pick_project_key [(''Alpha'', [''bob'', ''ghost''])] 42 ''Alpha'' = Some ''Alpha''"
    by (simp add: pick_project_key_def dict_mem_def)
  have n: "''Alpha'' \<noteq> []" by simp
  have m: "map_of [(''Alpha'', [''bob'', ''ghost''])] ''Alpha'' = Some [''bob'', ''ghost'']"
    by simp
  have h: "first_hit store_gateway (remote (world_of store1 [] 0)) ''bob'' = Some dev_bob"
    by (simp add: gateway_defs first_hit_def)
  have v: "preferred_ids_of store_gateway [(''Alpha'', [''bob'', ''ghost''])] 42 ''Alpha''
        (world_of store1 [] 0)
       = Next (Some [2]) \<lparr>remote = store1, console = [],
                          trace = [Print ''Preferred devs not found: ghost''], clock = 0\<rparr>"
    by (simp add: gateway_defs block_defs List.map_filter_def)
  obtain ids wp where
    p: "preferred_ids_of store_gateway [(''Alpha'', [''bob'', ''ghost''])] 42 ''Alpha''
          (world_of store1 [] 0) = Next (Some ids) wp"
    and c: "''bob'' \<in> set [''bob'', ''ghost'']
            \<and> first_hit store_gateway (remote (world_of store1 [] 0)) ''bob'' = Some dev_bob
            \<longrightarrow> ids \<noteq> [] \<and> (\<forall>counts. candidate_ids_of (Some ids) counts = ids)"
    using preferred_candidates [OF k n m, where ident = "''bob''" and u = dev_bob
      and gw = store_gateway and w = "world_of store1 [] 0"]
    by (elim exE conjE) (rule that, assumption+)
  from p v have "ids = [2]" by simp
  with c h have c2: "candidate_ids_of (Some [2]) [(1, 1)] = [2]" by simp
  have r: "rank (map (enrich [] [(1, 1)] []) (read_users store_gateway store1 [2])) = [bob_idle]"
    by (simp add: gateway_defs block_defs bob_idle_def)
  have k': "pick_project_key [(''default'', [''ghost''])] 42 ''Alpha'' = Some ''default''"
    by (simp add: pick_project_key_def dict_mem_def str_int_def str_nat.simps)
  have n': "''default'' \<noteq> []" by simp
  have m': "map_of [(''default'', [''ghost''])] ''default'' = Some [''ghost'']"
    by simp
  have h': "first_hit store_gateway (remote (world_of store1 [] 0)) ''ghost'' = None"
    by (simp add: gateway_defs first_hit_def)
  have v': "preferred_ids_of store_gateway [(''default'', [''ghost''])] 42 ''Alpha''
        (world_of store1 [] 0)
       = Next (Some []) \<lparr>remote = store1, console = [],
                         trace = [Print ''Preferred devs not found: ghost''], clock = 0\<rparr>"
    by (simp add: gateway_defs block_defs List.map_filter_def)
  obtain ids' wp' where
    p': "preferred_ids_of store_gateway [(''default'', [''ghost''])] 42 ''Alpha''
          (world_of store1 [] 0) = Next (Some ids') wp'"
    and f: "(\<forall>i \<in> set [''ghost'']. first_hit store_gateway (remote (world_of store1 [] 0)) i = None)
            \<longrightarrow> ids' = [] \<and> (\<forall>counts. candidate_ids_of (Some ids') counts = dict_keys counts)"
    using preferred_candidates [OF k' n' m', where ident = "''ghost''" and u = dev_bob
      and gw = store_gateway and w = "world_of store1 [] 0"]
    by (elim exE conjE) (rule that, assumption+)
  from f h' have "\<forall>counts. candidate_ids_of (Some []) counts = dict_keys counts"
    by auto
  then have c3: "candidate_ids_of (Some []) [(2, 2), (1, 1)] = [2, 1]"
    by (simp add: dict_keys_def)
  show ?thesis
    using k h v c2 r k' h' v' c3 by (simp add: world_of_def)
qed

end
